theory Spec2Isabelle
  imports Complex_Main "HOL-Library.AList"
begin

section \<open>Python values, exceptions and the object store\<close>

text \<open>
  A parsed JSON document, as \<^verbatim>\<open>json.load\<close> returns it. Numbers are kept as reals:
  Python compares ints and floats by value, and no operation below depends on which of
  the two a number is.
\<close>

datatype json =
    JNull
  | JBool bool
  | JNum real
  | JStr string
  | JList "json list"
  | JDict "(string \<times> json) list"

text \<open>
  A Python value as the configuration holds it. A dict is a mutable object, so it is
  held by reference (\<open>VRef\<close>, an address of the store); lists are only ever replaced
  whole by the code modelled here, never updated in place, and are held inline.
\<close>

datatype pyval =
    VNull
  | VBool bool
  | VNum real
  | VStr string
  | VList "pyval list"
  | VRef nat

type_synonym pydict = "(string \<times> pyval) list"

text \<open>The store of dict objects: the object at address \<open>a\<close> is the \<open>a\<close>-th entry.\<close>

type_synonym heap = "pydict list"

datatype exn =
    ValueError string
  | KeyError string
  | TypeError string
  | AttributeError string
  | FileNotFoundError string
  | IndexError string
  | LibraryError string

text \<open>
  These are the exceptions that \<^verbatim>\<open>except Exception\<close> catches. \<open>LibraryError\<close> stands
  for any such exception that an external collaborator raises (the OCR engine, the
  imaging libraries, the HTTP client, the browser driver). What is not an \<open>Exception\<close>
  (\<open>KeyboardInterrupt\<close>, \<open>SystemExit\<close>) is not modelled.
\<close>

definition deref :: "heap \<Rightarrow> nat \<Rightarrow> pydict" where
  "deref h a = (if a < length h then h ! a else [])"

definition new_dict :: "heap \<Rightarrow> pydict \<Rightarrow> heap \<times> nat" where
  "new_dict h d = (h @ [d], length h)"

definition dict_get :: "pydict \<Rightarrow> string \<Rightarrow> pyval option" where
  "dict_get d k = map_of d k"

text \<open>
  \<^verbatim>\<open>d[k] = v\<close>: an existing key keeps its position, a new key goes last (insertion
  order), which is what \<open>AList.update\<close> does.
\<close>

definition dict_set :: "pydict \<Rightarrow> string \<Rightarrow> pyval \<Rightarrow> pydict" where
  "dict_set d k v = AList.update k v d"

definition setitem :: "heap \<Rightarrow> nat \<Rightarrow> string \<Rightarrow> pyval \<Rightarrow> heap" where
  "setitem h a k v = (if a < length h then h[a := dict_set (h ! a) k v] else h)"

text \<open>
  Storing a parsed JSON value: every JSON object becomes a fresh dict object of the
  store, as \<^verbatim>\<open>json.load\<close> builds it.
\<close>

fun alloc_json :: "heap \<Rightarrow> json \<Rightarrow> heap \<times> pyval"
  and alloc_list :: "heap \<Rightarrow> json list \<Rightarrow> heap \<times> pyval list"
  and alloc_items :: "heap \<Rightarrow> pydict \<Rightarrow> (string \<times> json) list \<Rightarrow> heap \<times> pydict"
where
  "alloc_json h JNull = (h, VNull)"
| "alloc_json h (JBool b) = (h, VBool b)"
| "alloc_json h (JNum r) = (h, VNum r)"
| "alloc_json h (JStr s) = (h, VStr s)"
| "alloc_json h (JList xs) = (case alloc_list h xs of (h', vs) \<Rightarrow> (h', VList vs))"
| "alloc_json h (JDict kvs) =
     (case alloc_items h [] kvs of (h', d) \<Rightarrow> (h' @ [d], VRef (length h')))"
| "alloc_list h [] = (h, [])"
| "alloc_list h (x # xs) =
     (case alloc_json h x of (h1, v) \<Rightarrow>
        (case alloc_list h1 xs of (h2, vs) \<Rightarrow> (h2, v # vs)))"
| "alloc_items h d [] = (h, d)"
| "alloc_items h d ((k, x) # kvs) =
     (case alloc_json h x of (h1, v) \<Rightarrow> alloc_items h1 (dict_set d k v) kvs)"



text \<open>
  \<^verbatim>\<open>str(v)\<close> inside a message. Only strings are rendered exactly; the decimal
  rendering of a number and the rendering of a container are left as a tag.
\<close>

fun py_str :: "pyval \<Rightarrow> string" where
  "py_str (VStr s) = s"
| "py_str VNull = ''None''"
| "py_str (VBool b) = (if b then ''True'' else ''False'')"
| "py_str (VNum r) = ''<number>''"
| "py_str (VList vs) = ''<list>''"
| "py_str (VRef a) = ''<dict>''"

section \<open>The configuration store (config.py)\<close>

text \<open>
  \<^verbatim>\<open>Config.DEFAULT_CONFIG\<close> is a class attribute: one dict object, built once when the
  class is defined, with one nested dict object per section. Address 0 is the top-level
  dict.
\<close>

definition DEFAULT_CONFIG :: nat where
  "DEFAULT_CONFIG = 0"

definition whitelist_config :: string where
  "whitelist_config =
     ''--psm 8 -c tessedit_char_whitelist=0123456789ABCDEFGHIJKLMNOPQRSTUVWXYZabcdefghijklmnopqrstuvwxyz''"

definition class_heap :: heap where
  "class_heap =
    [ [(''tesseract'', VRef 1), (''preprocessing'', VRef 2), (''selenium'', VRef 6),
       (''ocr'', VRef 7), (''extraction'', VRef 8)],
      [(''cmd'', VStr ''/usr/bin/tesseract''), (''config'', VStr whitelist_config)],
      [(''steps'', VList [VStr ''grayscale'', VStr ''denoise'', VStr ''threshold'',
                          VStr ''morphology'']),
       (''gaussian_blur'', VRef 3), (''threshold'', VRef 4), (''morphology'', VRef 5)],
      [(''kernel_size'', VList [VNum 5, VNum 5]), (''sigma'', VNum 0)],
      [(''type'', VStr ''adaptive''), (''max_value'', VNum 255), (''block_size'', VNum 11),
       (''c'', VNum 2)],
      [(''kernel_size'', VList [VNum 3, VNum 3]), (''iterations'', VNum 1)],
      [(''driver'', VStr ''chrome''), (''headless'', VBool True), (''timeout'', VNum 10),
       (''window_size'', VList [VNum 1920, VNum 1080])],
      [(''confidence_threshold'', VNum 60), (''dpi'', VNum 300), (''language'', VStr ''eng'')],
      [(''timeout'', VNum 30), (''retry_attempts'', VNum 3),
       (''user_agent'',
        VStr ''Mozilla/5.0 (Windows NT 10.0; Win64; x64) AppleWebKit/537.36'')] ]"

text \<open>
  \<^verbatim>\<open>_deep_merge(base, update)\<close>. \<open>base\<close> is a dict object of the store and is
  updated in place. \<open>update\<close> is the parsed file: it is only read, and it is dropped when
  \<^verbatim>\<open>_load_from_file\<close> returns, so a sub-dict of it that \<^verbatim>\<open>base[key] = value\<close>
  stores is an object nothing else refers to; the model allocates it at that moment.
\<close>

function deep_merge :: "heap \<Rightarrow> nat \<Rightarrow> (string \<times> json) list \<Rightarrow> heap" where
  "deep_merge h b [] = h"
| "deep_merge h b ((k, v) # rest) =
     (case (dict_get (deref h b) k, v) of
        (Some (VRef a), JDict upd) \<Rightarrow> deep_merge (deep_merge h a upd) b rest
      | _ \<Rightarrow> (case alloc_json h v of (h', v') \<Rightarrow> deep_merge (setitem h' b k v') b rest))"
  by pat_completeness auto
termination
  by (relation "measure (\<lambda>(h, b, u). size_list (size_prod (\<lambda>_. 0) size) u)") auto

text \<open>What the path given to \<^verbatim>\<open>Config(...)\<close> holds: text that is not JSON, or a document.\<close>

datatype file_content = Malformed | Parsed json

definition required_sections :: "string list" where
  "required_sections = [''tesseract'', ''preprocessing'', ''selenium'', ''ocr'', ''extraction'']"

definition valid_steps :: "string list" where
  "valid_steps = [''grayscale'', ''denoise'', ''threshold'', ''morphology'', ''skew_correction'']"

text \<open>\<^verbatim>\<open>self.config[name][key]\<close>: the section must be subscriptable by a string key.\<close>

definition section_item :: "heap \<Rightarrow> nat \<Rightarrow> string \<Rightarrow> string \<Rightarrow> exn + pyval" where
  "section_item h c name key =
     (case dict_get (deref h c) name of
        None \<Rightarrow> Inl (KeyError name)
      | Some (VRef a) \<Rightarrow>
          (case dict_get (deref h a) key of
             None \<Rightarrow> Inl (KeyError key)
           | Some v \<Rightarrow> Inr v)
      | Some _ \<Rightarrow> Inl (TypeError ''indices must be integers''))"

text \<open>A value as an operand of \<^verbatim>\<open><=\<close> against a number (\<open>bool\<close> is a subclass of \<open>int\<close>).\<close>

fun as_number :: "pyval \<Rightarrow> real option" where
  "as_number (VNum r) = Some r"
| "as_number (VBool b) = Some (if b then 1 else 0)"
| "as_number v = None"

text \<open>\<^verbatim>\<open>for step in steps\<close>: what iterating the value yields, if it is iterable.\<close>

fun py_iter :: "heap \<Rightarrow> pyval \<Rightarrow> pyval list option" where
  "py_iter h (VList vs) = Some vs"
| "py_iter h (VStr s) = Some (map (\<lambda>c. VStr [c]) s)"
| "py_iter h (VRef a) = Some (map (\<lambda>kv. VStr (fst kv)) (deref h a))"
| "py_iter h v = None"

fun check_sections :: "pydict \<Rightarrow> string list \<Rightarrow> exn + unit" where
  "check_sections d [] = Inr ()"
| "check_sections d (s # ss) =
     (if dict_get d s = None
      then Inl (ValueError (''Missing required configuration section: '' @ s))
      else check_sections d ss)"

fun check_steps :: "pyval list \<Rightarrow> exn + unit" where
  "check_steps [] = Inr ()"
| "check_steps (step # steps) =
     (if step \<notin> set (map VStr valid_steps)
      then Inl (ValueError (''Invalid preprocessing step: '' @ py_str step))
      else check_steps steps)"

definition validate_config :: "heap \<Rightarrow> nat \<Rightarrow> exn + unit" where
  "validate_config h c =
     (case check_sections (deref h c) required_sections of
        Inl e \<Rightarrow> Inl e
      | Inr _ \<Rightarrow>
     (case section_item h c ''selenium'' ''timeout'' of
        Inl e \<Rightarrow> Inl e
      | Inr t \<Rightarrow>
     (case as_number t of
        None \<Rightarrow> Inl (TypeError ''<= not supported'')
      | Some tr \<Rightarrow>
     if tr \<le> 0 then Inl (ValueError ''Selenium timeout must be positive'') else
     (case section_item h c ''ocr'' ''confidence_threshold'' of
        Inl e \<Rightarrow> Inl e
      | Inr ct \<Rightarrow>
     (case as_number ct of
        None \<Rightarrow> Inl (TypeError ''<= not supported'')
      | Some cr \<Rightarrow>
     if \<not> (0 \<le> cr \<and> cr \<le> 100)
     then Inl (ValueError ''OCR confidence threshold must be between 0 and 100'') else
     (case section_item h c ''preprocessing'' ''steps'' of
        Inl e \<Rightarrow> Inl e
      | Inr steps \<Rightarrow>
     (case py_iter h steps of
        None \<Rightarrow> Inl (TypeError ''object is not iterable'')
      | Some xs \<Rightarrow> check_steps xs)))))))"

text \<open>
  \<^verbatim>\<open>_load_from_file\<close>: a document that is not JSON becomes a \<open>ValueError\<close>; a document
  whose top level is not an object has no \<^verbatim>\<open>items()\<close>, and that error is not among the
  ones the method catches.
\<close>

definition load_from_file :: "heap \<Rightarrow> nat \<Rightarrow> string \<Rightarrow> file_content \<Rightarrow> heap \<times> (exn + unit)" where
  "load_from_file h c config_file content =
     (case content of
        Malformed \<Rightarrow> (h, Inl (ValueError (''Error loading config file '' @ config_file)))
      | Parsed (JDict kvs) \<Rightarrow> (deep_merge h c kvs, Inr ())
      | Parsed _ \<Rightarrow> (h, Inl (AttributeError ''items'')))"

text \<open>
  \<^verbatim>\<open>Config.__init__(config_file)\<close>. \<open>fs\<close> is the file system: \<open>fs p = None\<close> when
  \<^verbatim>\<open>os.path.exists(p)\<close> is false. \<^verbatim>\<open>self.config = self.DEFAULT_CONFIG.copy()\<close> is
  \<^verbatim>\<open>dict.copy\<close>: a new top-level dict with the same entries, nested dicts included by
  reference. The result is the store afterwards and either the exception raised or the
  address of \<^verbatim>\<open>self.config\<close>.
\<close>

definition Config_init ::
  "(string \<Rightarrow> file_content option) \<Rightarrow> heap \<Rightarrow> string option \<Rightarrow> heap \<times> (exn + nat)" where
  "Config_init fs h config_file =
     (case new_dict h (deref h DEFAULT_CONFIG) of (h1, c) \<Rightarrow>
        (case (case config_file of
                 None \<Rightarrow> (h1, Inr ())
               | Some p \<Rightarrow>
                   (if p = [] then (h1, Inr ())
                    else (case fs p of
                            None \<Rightarrow> (h1, Inr ())
                          | Some content \<Rightarrow> load_from_file h1 c p content))) of
           (h2, Inl e) \<Rightarrow> (h2, Inl e)
         | (h2, Inr _) \<Rightarrow>
             (case validate_config h2 c of
                Inl e \<Rightarrow> (h2, Inl e)
              | Inr _ \<Rightarrow> (h2, Inr c))))"

text \<open>\<^verbatim>\<open>key.split('.')\<close>.\<close>

fun split_dot :: "string \<Rightarrow> string list" where
  "split_dot [] = [[]]"
| "split_dot (c # cs) =
     (if c = CHR ''.'' then [] # split_dot cs
      else (case split_dot cs of
              [] \<Rightarrow> [[c]]
            | w # ws \<Rightarrow> (c # w) # ws))"

text \<open>
  The loop of \<^verbatim>\<open>Config.get\<close>: \<^verbatim>\<open>value = value[k]\<close> for each key; \<open>None\<close> stands for
  the \<open>KeyError\<close> or \<open>TypeError\<close> that the method catches.
\<close>

fun lookup_path :: "heap \<Rightarrow> pyval \<Rightarrow> string list \<Rightarrow> pyval option" where
  "lookup_path h v [] = Some v"
| "lookup_path h (VRef a) (k # ks) =
     (case dict_get (deref h a) k of
        None \<Rightarrow> None
      | Some v \<Rightarrow> lookup_path h v ks)"
| "lookup_path h v (k # ks) = None"

definition Config_get :: "heap \<Rightarrow> nat \<Rightarrow> string \<Rightarrow> pyval \<Rightarrow> pyval" where
  "Config_get h c key dflt =
     (case lookup_path h (VRef c) (split_dot key) of
        None \<Rightarrow> dflt
      | Some v \<Rightarrow> v)"


definition enhance_fs :: "string \<Rightarrow> file_content option" where
  "enhance_fs p = (if p = ''cfg.json''
     then Some (Parsed (JDict [(''preprocessing'',
            JDict [(''steps'', JList [JStr ''grayscale'', JStr ''enhance''])])])) else None)"

section \<open>Strings (utils.py, and the string methods the code calls)\<close>

text \<open>
  A Python \<open>str\<close> is modelled as a list of \<open>char\<close>, one \<open>char\<close> per code point, so the
  model covers the code points below 256. \<^verbatim>\<open>str.isspace\<close>, which \<^verbatim>\<open>strip()\<close> and the
  regular expression class \<^verbatim>\<open>\s\<close> use, holds of these code points in that range.
\<close>

definition py_isspace :: "char \<Rightarrow> bool" where
  "py_isspace c = (of_char c \<in> set [9, 10, 11, 12, 13, 28, 29, 30, 31, 32, 133, 160 :: nat])"

definition strip :: "string \<Rightarrow> string" where
  "strip s = rev (dropWhile py_isspace (rev (dropWhile py_isspace s)))"

text \<open>\<^verbatim>\<open>str.isprintable\<close> of one character (160 is a separator, 173 a format character).\<close>

definition py_isprintable :: "char \<Rightarrow> bool" where
  "py_isprintable c =
     (let n = (of_char c :: nat)
      in (32 \<le> n \<and> n \<le> 126) \<or> (161 \<le> n \<and> n \<noteq> 173))"

text \<open>\<^verbatim>\<open>re.sub(r'\s+', ' ', text)\<close>: every maximal run of whitespace becomes one space.\<close>

function collapse_ws :: "string \<Rightarrow> string" where
  "collapse_ws [] = []"
| "collapse_ws (c # cs) =
     (if py_isspace c then CHR '' '' # collapse_ws (dropWhile py_isspace cs)
      else c # collapse_ws cs)"
  by pat_completeness auto
termination
  by (relation "measure length") (auto simp: length_dropWhile_le less_Suc_eq_le)

definition ocr_artifacts :: "char list" where
  "ocr_artifacts = [CHR ''|'', CHR 0x5C, CHR ''/'', CHR ''_'', CHR ''~'', CHR 0x60]"

definition clean_text :: "string \<Rightarrow> string" where
  "clean_text t0 =
     (if t0 = [] then []
      else (let t1 = filter py_isprintable t0;
                t2 = strip (collapse_ws t1);
                t3 = filter (\<lambda>c. c \<notin> set ocr_artifacts) t2
            in t3))"

text \<open>\<^verbatim>\<open>' '.join(parts)\<close>.\<close>

fun join_space :: "string list \<Rightarrow> string" where
  "join_space [] = []"
| "join_space [w] = w"
| "join_space (w # ws) = w @ '' '' @ join_space ws"

section \<open>The OCR recognizer (ocr.py)\<close>

text \<open>
  The external engine. \<open>image_to_data\<close> is \<^verbatim>\<open>pytesseract.image_to_data\<close> with a
  dict output: the \<open>text\<close> column and the \<open>conf\<close> column, or the exception it raises.
  \<open>ascii_fold\<close> is \<^verbatim>\<open>unicodedata.normalize('NFKD', s).encode('ascii', 'ignore').decode('ascii')\<close>.
  Confidences are reals: the arithmetic on them is exact here, where the code uses
  floating point.
\<close>

record 'img engine =
  image_to_data :: "'img \<Rightarrow> string \<Rightarrow> exn + (string list \<times> real list)"
  ascii_fold :: "string \<Rightarrow> string"

text \<open>The fields of an \<open>OCRHandler\<close> that its methods assign.\<close>

record ocr_handler =
  ocr_last_confidence :: real
  ocr_last_result :: string
  default_config :: string

text \<open>
  The loop over \<^verbatim>\<open>enumerate(data['text'])\<close>: a word that is not blank is kept together
  with \<^verbatim>\<open>data['conf'][i]\<close>, which raises when the \<open>conf\<close> column is shorter.
\<close>

fun collect_words :: "nat \<Rightarrow> string list \<Rightarrow> real list \<Rightarrow> exn + (string list \<times> real list)" where
  "collect_words i [] conf = Inr ([], [])"
| "collect_words i (w # ws) conf =
     (if strip w \<noteq> []
      then (if i < length conf
            then (case collect_words (Suc i) ws conf of
                    Inl e \<Rightarrow> Inl e
                  | Inr (parts, cs) \<Rightarrow> Inr (w # parts, conf ! i # cs))
            else Inl (IndexError ''list index out of range''))
      else collect_words (Suc i) ws conf)"

text \<open>The conditional expression that \<^verbatim>\<open>recognize_text\<close> assigns to \<open>last_confidence\<close>.\<close>

definition average_confidence :: "real list \<Rightarrow> real" where
  "average_confidence confidences =
     (if confidences \<noteq> []
      then (if list_ex (\<lambda>conf. conf > 0) confidences
            then sum_list (filter (\<lambda>conf. conf > 0) confidences)
                 / real (length (filter (\<lambda>conf. conf > 0) confidences))
            else 0)
      else 0)"

text \<open>
  \<^verbatim>\<open>_clean_ocr_result\<close>. The table of replacements it builds is never applied.
\<close>

definition clean_ocr_result :: "'img engine \<Rightarrow> string \<Rightarrow> string" where
  "clean_ocr_result e t0 =
     (if t0 = [] then []
      else filter (\<lambda>c. c \<noteq> CHR '' '') (clean_text (ascii_fold e t0)))"

text \<open>
  \<^verbatim>\<open>recognize_text(image, custom_config)\<close>: the text returned and the handler
  afterwards. Every exception inside is caught by the method itself.
  \<open>effective_config\<close> is \<^verbatim>\<open>custom_config or self.default_config\<close>.
\<close>

definition effective_config :: "ocr_handler \<Rightarrow> string option \<Rightarrow> string" where
  "effective_config h custom_config =
     (case custom_config of
        None \<Rightarrow> default_config h
      | Some c \<Rightarrow> if c = [] then default_config h else c)"

definition recognize_text ::
  "'img engine \<Rightarrow> ocr_handler \<Rightarrow> 'img \<Rightarrow> string option \<Rightarrow> string \<times> ocr_handler" where
  "recognize_text e h img custom_config =
     (let config = effective_config h custom_config;
          failed = ([], h\<lparr>ocr_last_confidence := 0, ocr_last_result := []\<rparr>)
      in case image_to_data e img config of
           Inl x \<Rightarrow> failed
         | Inr (words, conf) \<Rightarrow>
             (case collect_words 0 words conf of
                Inl x \<Rightarrow> failed
              | Inr (text_parts, confidences) \<Rightarrow>
                  (let raw_text = join_space text_parts;
                       cleaned_text = clean_ocr_result e raw_text
                   in (cleaned_text,
                       h\<lparr>ocr_last_confidence := average_confidence confidences,
                         ocr_last_result := cleaned_text\<rparr>))))"

definition get_confidence :: "ocr_handler \<Rightarrow> real" where
  "get_confidence h = ocr_last_confidence h"

definition ocr_configs :: "string list" where
  "ocr_configs =
     [''--psm 8 -c tessedit_char_whitelist=0123456789ABCDEFGHIJKLMNOPQRSTUVWXYZabcdefghijklmnopqrstuvwxyz'',
      ''--psm 7 -c tessedit_char_whitelist=0123456789ABCDEFGHIJKLMNOPQRSTUVWXYZabcdefghijklmnopqrstuvwxyz'',
      ''--psm 6 -c tessedit_char_whitelist=0123456789ABCDEFGHIJKLMNOPQRSTUVWXYZabcdefghijklmnopqrstuvwxyz'',
      ''--psm 8'',
      ''--psm 7'',
      ''--psm 13'']"

text \<open>
  The loop of \<^verbatim>\<open>recognize_with_multiple_configs\<close> over a list of configurations, with
  \<open>(best_text, best_confidence)\<close> as its accumulator. \<^verbatim>\<open>recognize_text\<close> raises
  nothing, so the \<^verbatim>\<open>except\<close> branch of the loop body is never taken.
\<close>

fun try_configs ::
  "'img engine \<Rightarrow> ocr_handler \<Rightarrow> 'img \<Rightarrow> string list \<Rightarrow> string \<times> real
     \<Rightarrow> (string \<times> real) \<times> ocr_handler" where
  "try_configs e h img [] best = (best, h)"
| "try_configs e h img (config # configs) (best_text, best_confidence) =
     (case recognize_text e h img (Some config) of
        (txt, h') \<Rightarrow>
          (let confidence = ocr_last_confidence h'
           in if confidence > best_confidence \<and> strip txt \<noteq> []
              then try_configs e h' img configs (txt, confidence)
              else try_configs e h' img configs (best_text, best_confidence)))"

definition recognize_with_multiple_configs ::
  "'img engine \<Rightarrow> ocr_handler \<Rightarrow> 'img \<Rightarrow> (string \<times> real) \<times> ocr_handler" where
  "recognize_with_multiple_configs e h img =
     (case try_configs e h img ocr_configs ([], 0) of
        ((best_text, best_confidence), h') \<Rightarrow>
          ((best_text, best_confidence),
           h'\<lparr>ocr_last_result := best_text, ocr_last_confidence := best_confidence\<rparr>))"

text \<open>
  The confidence as the specification words it: the mean of all confidence values the
  engine reports that are non-negative, and 0 when there are none.
\<close>

definition mean_of_non_negative :: "real list \<Rightarrow> real" where
  "mean_of_non_negative conf =
     (let kept = filter (\<lambda>c. 0 \<le> c) conf
      in if kept = [] then 0 else sum_list kept / real (length kept))"

text \<open>
  One attempt of the recognizer under one configuration: the text and the confidence it
  leaves behind.
\<close>

definition attempt :: "'img engine \<Rightarrow> ocr_handler \<Rightarrow> 'img \<Rightarrow> string \<Rightarrow> string \<times> real" where
  "attempt e h img config =
     (case recognize_text e h img (Some config) of
        (txt, h') \<Rightarrow> (txt, ocr_last_confidence h'))"

text \<open>
  The best attempt of a list: among the attempts whose text is not empty and whose
  confidence exceeds \<open>lo\<close>, the first one of highest confidence.
\<close>

definition candidates :: "real \<Rightarrow> (string \<times> real) list \<Rightarrow> (string \<times> real) list" where
  "candidates lo rs = filter (\<lambda>r. strip (fst r) \<noteq> [] \<and> lo < snd r) rs"

definition first_highest :: "(string \<times> real) list \<Rightarrow> string \<times> real" where
  "first_highest cands = hd (filter (\<lambda>r. snd r = Max (set (map snd cands))) cands)"

definition best_attempt :: "(string \<times> real) list \<Rightarrow> string \<times> real" where
  "best_attempt rs =
     (if candidates 0 rs = [] then ([], 0) else first_highest (candidates 0 rs))"

text \<open>
  The result as the specification words it: every attempt with a non-empty text is a
  candidate, whatever its confidence.
\<close>

definition non_empty_attempts :: "(string \<times> real) list \<Rightarrow> (string \<times> real) list" where
  "non_empty_attempts rs = filter (\<lambda>r. fst r \<noteq> []) rs"

definition best_non_empty :: "(string \<times> real) list \<Rightarrow> string \<times> real" where
  "best_non_empty rs =
     (if non_empty_attempts rs = [] then ([], 0) else first_highest (non_empty_attempts rs))"

text \<open>
  Two engines for concrete runs. The first reports two words, the first of them with
  confidence 0. The second reports a blank token of confidence 95 beside one word.
\<close>

definition zero_conf_engine :: "unit engine" where
  "zero_conf_engine =
     \<lparr>image_to_data = (\<lambda>img cfg. Inr ([''AB'', ''CD''], [0, 50])), ascii_fold = (\<lambda>s. s)\<rparr>"

definition all_zero_engine :: "unit engine" where
  "all_zero_engine =
     \<lparr>image_to_data = (\<lambda>img cfg. Inr ([''AB''], [0])), ascii_fold = (\<lambda>s. s)\<rparr>"

definition fresh_handler :: ocr_handler where
  "fresh_handler =
     \<lparr>ocr_last_confidence = 0, ocr_last_result = [], default_config = whitelist_config\<rparr>"

section \<open>The image preprocessor (preprocessor.py)\<close>

text \<open>
  Images are values of a type \<open>'img\<close> that the model does not look into; the imaging
  libraries (PIL, NumPy, OpenCV) are a record of functions on it, each returning its
  result or the exception it raises:
  \<^item> \<open>img_mode\<close> is \<^verbatim>\<open>image.mode\<close>, \<open>img_convert\<close> is \<^verbatim>\<open>image.convert(mode)\<close>;
  \<^item> \<open>array_shape\<close> is \<^verbatim>\<open>np.array(image).shape\<close>;
  \<^item> \<open>hough_lines\<close> is \<^verbatim>\<open>cv2.HoughLines(cv2.Canny(img_array, 50, 150, apertureSize=3),
    1, np.pi/180, threshold=100)\<close>: \<open>None\<close>, or the \<open>(rho, theta)\<close> pairs of the lines;
  \<^item> \<open>to_degrees theta\<close> is \<^verbatim>\<open>theta * 180 / np.pi\<close>, \<open>minus_180 angle\<close> is
    \<^verbatim>\<open>angle - 180\<close> and \<open>np_median angles\<close> is \<^verbatim>\<open>np.median(angles)\<close>, each as NumPy
    computes it in the floating-point type of its operands (which type that is, and so
    how each result is rounded, depends on the NumPy version);
  \<^item> \<open>rotate_replicate img center angle dsize\<close> is \<^verbatim>\<open>cv2.warpAffine\<close> of the array with
    the matrix \<^verbatim>\<open>cv2.getRotationMatrix2D(center, angle, 1.0)\<close>, the output size
    \<open>dsize\<close>, \<^verbatim>\<open>flags=cv2.INTER_CUBIC\<close> and \<^verbatim>\<open>borderMode=cv2.BORDER_REPLICATE\<close>, wrapped
    by \<^verbatim>\<open>Image.fromarray\<close>;
  \<^item> \<open>denoise_op\<close>, \<open>threshold_op\<close>, \<open>morphology_op\<close> and \<open>enhance_op\<close> are the bodies of
    \<^verbatim>\<open>denoise\<close>, \<^verbatim>\<open>apply_threshold\<close>, \<^verbatim>\<open>morphological_operations\<close> and
    \<^verbatim>\<open>enhance_image\<close>, which are sequences of library calls under the preprocessing
    configuration.
\<close>

record 'img imaging =
  img_mode :: "'img \<Rightarrow> string"
  img_convert :: "'img \<Rightarrow> string \<Rightarrow> exn + 'img"
  array_shape :: "'img \<Rightarrow> nat list"
  hough_lines :: "'img \<Rightarrow> exn + (real \<times> real) list option"
  to_degrees :: "real \<Rightarrow> real"
  minus_180 :: "real \<Rightarrow> real"
  np_median :: "real list \<Rightarrow> real"
  rotate_replicate :: "'img \<Rightarrow> nat \<times> nat \<Rightarrow> real \<Rightarrow> nat \<times> nat \<Rightarrow> exn + 'img"
  denoise_op :: "'img \<Rightarrow> exn + 'img"
  threshold_op :: "'img \<Rightarrow> exn + 'img"
  morphology_op :: "'img \<Rightarrow> exn + 'img"
  enhance_op :: "'img \<Rightarrow> exn + 'img"

definition convert_to_grayscale :: "'img imaging \<Rightarrow> 'img \<Rightarrow> exn + 'img" where
  "convert_to_grayscale lib img =
     (if img_mode lib img \<noteq> ''L'' then img_convert lib img ''L'' else Inr img)"

text \<open>Running one step after another: an exception of the first ends the run.\<close>

definition and_then :: "exn + 'a \<Rightarrow> ('a \<Rightarrow> exn + 'b) \<Rightarrow> exn + 'b" where
  "and_then r f = (case r of Inl e \<Rightarrow> Inl e | Inr x \<Rightarrow> f x)"

text \<open>
  The rotation angle of one detected line, in degrees: the body of the loop over
  \<^verbatim>\<open>lines[:, 0]\<close>. A floating-point number is the real number it denotes; the
  arithmetic is the library's, the comparisons are the code's and are exact.
\<close>

definition line_angle :: "'img imaging \<Rightarrow> real \<times> real \<Rightarrow> real" where
  "line_angle lib rho_theta =
     (let angle = to_degrees lib (snd rho_theta)
      in if angle > 90 then minus_180 lib angle else angle)"

definition correct_skew :: "'img imaging \<Rightarrow> 'img \<Rightarrow> exn + 'img" where
  "correct_skew lib img =
     (case hough_lines lib img of
        Inl e \<Rightarrow> Inl e
      | Inr None \<Rightarrow> Inr img
      | Inr (Some lines) \<Rightarrow>
          (if length lines > 0
           then (let angles = map (line_angle lib) lines;
                     median_angle = np_median lib angles
                 in if \<bar>median_angle\<bar> > 1
                    then (case array_shape lib img of
                            [height, width] \<Rightarrow>
                              rotate_replicate lib img (width div 2, height div 2)
                                median_angle (width, height)
                          | shape \<Rightarrow>
                              Inl (ValueError (if length shape > 2
                                               then ''too many values to unpack (expected 2)''
                                               else ''not enough values to unpack'')))
                    else Inr img)
           else Inr img))"

text \<open>
  One step of \<^verbatim>\<open>preprocess\<close>, by its name; an unknown name leaves the image as it is
  (the code logs a warning on the module's logger).
\<close>

definition apply_step :: "'img imaging \<Rightarrow> string \<Rightarrow> 'img \<Rightarrow> exn + 'img" where
  "apply_step lib step img =
     (if step = ''grayscale'' then convert_to_grayscale lib img
      else if step = ''denoise'' then denoise_op lib img
      else if step = ''threshold'' then threshold_op lib img
      else if step = ''morphology'' then morphology_op lib img
      else if step = ''skew_correction'' then correct_skew lib img
      else if step = ''enhance'' then enhance_op lib img
      else Inr img)"

fun preprocess :: "'img imaging \<Rightarrow> string list \<Rightarrow> 'img \<Rightarrow> exn + 'img" where
  "preprocess lib [] img = Inr img"
| "preprocess lib (step # steps) img =
     (case apply_step lib step img of
        Inl e \<Rightarrow> Inl e
      | Inr img' \<Rightarrow> preprocess lib steps img')"

text \<open>
  A small imaging library for concrete runs. An image is its mode, its height and width
  and its pixels, each pixel a list of channel values. Conversion to \<open>L\<close> is defined
  from \<open>RGB\<close> by the luma transform and is the identity on \<open>L\<close>. Line detection reports
  one line at 5 degrees on every image that is 100 pixels wide, and none otherwise; the
  arithmetic on angles is exact, and the median is that of the sorted list. A rotation
  is recorded on the image with its centre, its angle and its output size, in the order
  of the calls.
\<close>

record toy_image =
  toy_mode :: string
  toy_height :: nat
  toy_width :: nat
  toy_pixels :: "nat list list"
  toy_rotations :: "((nat \<times> nat) \<times> real \<times> (nat \<times> nat)) list"

definition toy_convert :: "toy_image \<Rightarrow> string \<Rightarrow> exn + toy_image" where
  "toy_convert img m =
     (if m = toy_mode img then Inr img
      else if m = ''L'' \<and> toy_mode img = ''RGB''
      then Inr (img\<lparr>toy_mode := ''L'',
                     toy_pixels := map (\<lambda>p. [(p ! 0 * 299 + p ! 1 * 587 + p ! 2 * 114) div 1000])
                                       (toy_pixels img)\<rparr>)
      else Inl (ValueError ''conversion not supported''))"

definition toy_shape :: "toy_image \<Rightarrow> nat list" where
  "toy_shape img =
     (if toy_mode img = ''RGB'' then [toy_height img, toy_width img, 3]
      else [toy_height img, toy_width img])"

definition toy_lines :: "toy_image \<Rightarrow> exn + (real \<times> real) list option" where
  "toy_lines img = (if toy_width img = 100 then Inr (Some [(10, pi / 36)]) else Inr None)"

definition toy_median :: "real list \<Rightarrow> real" where
  "toy_median xs =
     (let s = sort xs; n = length s
      in if even n then (s ! (n div 2 - 1) + s ! (n div 2)) / 2 else s ! (n div 2))"

definition toy_rotate :: "toy_image \<Rightarrow> nat \<times> nat \<Rightarrow> real \<Rightarrow> nat \<times> nat \<Rightarrow> exn + toy_image" where
  "toy_rotate img center angle dsize =
     Inr (img\<lparr>toy_rotations := toy_rotations img @ [(center, angle, dsize)]\<rparr>)"

definition toy_imaging :: "toy_image imaging" where
  "toy_imaging =
     \<lparr>img_mode = toy_mode, img_convert = toy_convert, array_shape = toy_shape,
      hough_lines = toy_lines,
      to_degrees = (\<lambda>theta. theta * 180 / pi),
      minus_180 = (\<lambda>angle. angle - 180),
      np_median = toy_median,
      rotate_replicate = toy_rotate,
      denoise_op = Inr, threshold_op = Inr, morphology_op = Inr, enhance_op = Inr\<rparr>"

definition rgb_image :: toy_image where
  "rgb_image = \<lparr>toy_mode = ''RGB'', toy_height = 1, toy_width = 100,
                 toy_pixels = replicate 100 [255, 255, 255], toy_rotations = []\<rparr>"

definition gray_image :: toy_image where
  "gray_image = \<lparr>toy_mode = ''L'', toy_height = 1, toy_width = 100,
                  toy_pixels = replicate 100 [255], toy_rotations = []\<rparr>"

section \<open>Paths and image files (utils.py)\<close>

text \<open>
  \<^verbatim>\<open>str(Path(p))\<close> on a POSIX system: the path is split at \<open>/\<close>, empty components and
  \<open>.\<close> components are dropped, a leading \<open>/\<close> is kept (two leading slashes exactly are
  kept as two), and the empty path is \<open>.\<close>.
\<close>

fun split_slash :: "string \<Rightarrow> string list" where
  "split_slash [] = [[]]"
| "split_slash (c # cs) =
     (if c = CHR ''/'' then [] # split_slash cs
      else (case split_slash cs of
              [] \<Rightarrow> [[c]]
            | w # ws \<Rightarrow> (c # w) # ws))"

fun join_slash :: "string list \<Rightarrow> string" where
  "join_slash [] = []"
| "join_slash [w] = w"
| "join_slash (w # ws) = w @ ''/'' @ join_slash ws"

definition path_parts :: "string \<Rightarrow> string list" where
  "path_parts p = filter (\<lambda>w. w \<noteq> [] \<and> w \<noteq> ''.'') (split_slash p)"

definition path_root :: "string \<Rightarrow> string" where
  "path_root p =
     (if take 2 p = ''//'' \<and> take 3 p \<noteq> ''///'' then ''//''
      else if take 1 p = ''/'' then ''/''
      else [])"

definition path_str :: "string \<Rightarrow> string" where
  "path_str p =
     (if path_root p = [] \<and> path_parts p = [] then ''.''
      else path_root p @ join_slash (path_parts p))"

text \<open>\<^verbatim>\<open>name.rfind('.')\<close> and \<^verbatim>\<open>Path.suffix\<close>.\<close>

definition rfind :: "char \<Rightarrow> string \<Rightarrow> int" where
  "rfind c s =
     (if c \<in> set s
      then int (length s) - 1 - int (length (takeWhile (\<lambda>x. x \<noteq> c) (rev s)))
      else - 1)"

definition path_suffix :: "string \<Rightarrow> string" where
  "path_suffix p =
     (let name = (if path_parts p = [] then [] else last (path_parts p));
          i = rfind CHR ''.'' name
      in if 0 < i \<and> i < int (length name) - 1 then drop (nat i) name else [])"

text \<open>\<^verbatim>\<open>str.lower\<close>, on the code points below 256.\<close>

definition py_lower_char :: "char \<Rightarrow> char" where
  "py_lower_char c =
     (let n = (of_char c :: nat)
      in if (65 \<le> n \<and> n \<le> 90) \<or> (192 \<le> n \<and> n \<le> 222 \<and> n \<noteq> 215)
         then char_of (n + 32) else c)"

definition valid_extensions :: "string list" where
  "valid_extensions = [''.png'', ''.jpg'', ''.jpeg'', ''.gif'', ''.bmp'', ''.tiff'', ''.webp'']"

section \<open>The solver orchestrator (solver.py)\<close>

text \<open>
  Everything outside the solver that its operations call:
  \<^item> the OCR engine and the imaging libraries of the sections above;
  \<^item> the file system (\<^verbatim>\<open>Path.exists\<close>, \<^verbatim>\<open>Path.is_file\<close>), \<^verbatim>\<open>Image.open\<close>,
    \<^verbatim>\<open>image.save\<close>, and \<open>image_digest\<close>, the MD5 digest of \<^verbatim>\<open>image.tobytes()\<close> that
    \<^verbatim>\<open>calculate_image_hash\<close> returns;
  \<^item> the two entry points of the extractor, \<^verbatim>\<open>extract_from_url\<close> and
    \<^verbatim>\<open>extract_from_element\<close>, whose bodies are calls to the HTTP client, the HTML
    parser and the browser driver. In the source each of them catches every exception
    and returns \<open>None\<close>; here they may also raise, so nothing proved below rests on that;
  \<^item> \<^verbatim>\<open>driver.current_url\<close> and the clock \<^verbatim>\<open>time.time()\<close>.
  \<open>'el\<close> is the type of web elements and \<open>'dr\<close> the type of browser drivers.
\<close>

record ('img, 'el, 'dr) world =
  ocr_engine :: "'img engine"
  imaging_lib :: "'img imaging"
  path_exists :: "string \<Rightarrow> bool"
  path_is_file :: "string \<Rightarrow> bool"
  image_open :: "string \<Rightarrow> exn + 'img"
  image_digest :: "'img \<Rightarrow> exn + string"
  image_save :: "'img \<Rightarrow> string \<Rightarrow> exn + unit"
  extract_from_url :: "string \<Rightarrow> string list option \<Rightarrow> exn + 'img option"
  extract_from_element :: "'el \<Rightarrow> 'dr option \<Rightarrow> exn + 'img option"
  current_url :: "'dr \<Rightarrow> exn + string"
  time_time :: real

definition validate_image_path :: "('img, 'el, 'dr) world \<Rightarrow> string \<Rightarrow> exn + string" where
  "validate_image_path w image_path =
     (let path = path_str image_path
      in if \<not> path_exists w path
         then Inl (FileNotFoundError (''Image file not found: '' @ path))
         else if \<not> path_is_file w path
         then Inl (ValueError (''Path is not a file: '' @ path))
         else if map py_lower_char (path_suffix path) \<notin> set valid_extensions
         then Inl (ValueError (''Invalid image format: '' @ path_suffix path))
         else Inr path)"

text \<open>One entry of \<open>processing_history\<close>.\<close>

record processing_record =
  pr_timestamp :: real
  pr_source :: string
  pr_image_hash :: string
  pr_result :: string
  pr_confidence :: real
  pr_preprocessing_steps :: "string list"

datatype level = DEBUG | INFO | WARNING | ERROR

text \<open>
  The state of a \<open>CAPTCHASolver\<close>: its attributes, the OCR handler and the step list of
  the preprocessor it owns, its configuration (an address of the store) and what it has
  written to its logger. A log line is kept as its level and its message; the numbers a
  message formats (elapsed times, sizes, confidences) are left out of the text.
\<close>

record 'img solver =
  last_processed_image :: "'img option"
  last_confidence :: real
  last_result :: string
  processing_history :: "processing_record list"
  handler :: ocr_handler
  processing_steps :: "string list"
  config_store :: heap
  config :: nat
  logged :: "(level \<times> string) list"

text \<open>
  A method of the solver: from the state before to the value returned or the exception
  raised, and the state after. A raise keeps the assignments made before it.
\<close>

type_synonym ('s, 'a) prog = "'s \<Rightarrow> (exn + 'a) \<times> 's"

definition ret :: "'a \<Rightarrow> ('s, 'a) prog" where
  "ret x = (\<lambda>s. (Inr x, s))"

definition lift :: "exn + 'a \<Rightarrow> ('s, 'a) prog" where
  "lift r = (\<lambda>s. (r, s))"

definition bnd :: "('s, 'a) prog \<Rightarrow> ('a \<Rightarrow> ('s, 'b) prog) \<Rightarrow> ('s, 'b) prog" where
  "bnd m f = (\<lambda>s. case m s of (Inl e, s') \<Rightarrow> (Inl e, s') | (Inr x, s') \<Rightarrow> f x s')"

text \<open>\<^verbatim>\<open>try: m  except Exception as e: h(e)\<close>.\<close>

definition try_except :: "('s, 'a) prog \<Rightarrow> (exn \<Rightarrow> ('s, 'a) prog) \<Rightarrow> ('s, 'a) prog" where
  "try_except m h = (\<lambda>s. case m s of (Inl e, s') \<Rightarrow> h e s' | (Inr x, s') \<Rightarrow> (Inr x, s'))"

definition assign :: "('s \<Rightarrow> 's) \<Rightarrow> ('s, unit) prog" where
  "assign f = (\<lambda>s. (Inr (), f s))"

definition only_if :: "bool \<Rightarrow> ('s, unit) prog \<Rightarrow> ('s, unit) prog" where
  "only_if b m = (if b then m else ret ())"

definition log_line :: "level \<Rightarrow> string \<Rightarrow> ('img solver, unit) prog" where
  "log_line lvl msg = assign (\<lambda>s. s\<lparr>logged := logged s @ [(lvl, msg)]\<rparr>)"

text \<open>\<^verbatim>\<open>str(e)\<close> of an exception.\<close>

fun exn_str :: "exn \<Rightarrow> string" where
  "exn_str (KeyError k) = [CHR 0x27] @ k @ [CHR 0x27]"
| "exn_str (ValueError m) = m"
| "exn_str (TypeError m) = m"
| "exn_str (AttributeError m) = m"
| "exn_str (FileNotFoundError m) = m"
| "exn_str (IndexError m) = m"
| "exn_str (LibraryError m) = m"

definition validate_result :: "string \<Rightarrow> real \<Rightarrow> ('img solver, bool) prog" where
  "validate_result result confidence =
     (\<lambda>s. (case as_number (Config_get (config_store s) (config s)
                               ''ocr.confidence_threshold'' (VNum 60)) of
              None \<Rightarrow> lift (Inl (TypeError ''< not supported''))
            | Some min_confidence \<Rightarrow>
                if confidence < min_confidence then ret False
                else if result = [] \<or> strip result = [] then ret False
                else bnd (only_if (length result < 3 \<or> length result > 10)
                            (log_line WARNING ''Unusual CAPTCHA length''))
                         (\<lambda>_. ret True)) s)"

text \<open>\<^verbatim>\<open>self.processing_history[-100:]\<close>.\<close>

definition last_100 :: "'a list \<Rightarrow> 'a list" where
  "last_100 xs = drop (length xs - 100) xs"

definition record_processing ::
  "('img, 'el, 'dr) world \<Rightarrow> string \<Rightarrow> string \<Rightarrow> string \<Rightarrow> real \<Rightarrow> ('img solver, unit) prog" where
  "record_processing w source image_hash result confidence =
     assign (\<lambda>s.
       (let entry = \<lparr>pr_timestamp = time_time w, pr_source = source,
                     pr_image_hash = image_hash, pr_result = result,
                     pr_confidence = confidence,
                     pr_preprocessing_steps = processing_steps s\<rparr>;
            history = processing_history s @ [entry]
        in s\<lparr>processing_history :=
               (if length history > 100 then last_100 history else history)\<rparr>))"

text \<open>The two steps of \<^verbatim>\<open>_solve_image\<close> that read and assign the solver's attributes.\<close>

definition run_preprocess :: "('img, 'el, 'dr) world \<Rightarrow> 'img \<Rightarrow> ('img solver, 'img) prog" where
  "run_preprocess w img =
     (\<lambda>s. bnd (lift (preprocess (imaging_lib w) (processing_steps s) img))
               (\<lambda>processed_image.
                  bnd (assign (\<lambda>s. s\<lparr>last_processed_image := Some processed_image\<rparr>))
                      (\<lambda>_. ret processed_image)) s)"

definition run_ocr :: "('img, 'el, 'dr) world \<Rightarrow> 'img \<Rightarrow> ('img solver, string \<times> real) prog" where
  "run_ocr w processed_image =
     (\<lambda>s. case recognize_with_multiple_configs (ocr_engine w) (handler s) processed_image of
             ((result, confidence), h') \<Rightarrow>
               (Inr (result, confidence),
                s\<lparr>handler := h', last_result := result, last_confidence := confidence\<rparr>))"

definition cache_path :: "string \<Rightarrow> string \<Rightarrow> string" where
  "cache_path kind image_hash = ''captcha_cache/'' @ kind @ ''_'' @ image_hash @ ''.png''"

definition solve_image_body ::
  "('img, 'el, 'dr) world \<Rightarrow> 'img \<Rightarrow> string \<Rightarrow> bool \<Rightarrow> ('img solver, string) prog" where
  "solve_image_body w img source save_processed =
     bnd (lift (image_digest w img)) (\<lambda>image_hash.
     bnd (only_if save_processed
            (bnd (lift (image_save w img (cache_path ''original'' image_hash)))
                 (\<lambda>_. log_line DEBUG (''Saved original image: ''
                                         @ cache_path ''original'' image_hash)))) (\<lambda>_.
     bnd (run_preprocess w img) (\<lambda>processed_image.
     bnd (log_line DEBUG ''Image preprocessed'') (\<lambda>_.
     bnd (only_if save_processed
            (bnd (lift (image_save w processed_image (cache_path ''processed'' image_hash)))
                 (\<lambda>_. log_line DEBUG (''Saved processed image: ''
                                         @ cache_path ''processed'' image_hash)))) (\<lambda>_.
     bnd (run_ocr w processed_image) (\<lambda>(result, confidence).
     bnd (log_line DEBUG ''OCR completed'') (\<lambda>_.
     bnd (record_processing w source image_hash result confidence) (\<lambda>_.
     bnd (validate_result result confidence) (\<lambda>valid.
     bnd (only_if (\<not> valid) (log_line WARNING (''Low confidence result: '' @ result))) (\<lambda>_.
     ret result))))))))))"

definition solve_image ::
  "('img, 'el, 'dr) world \<Rightarrow> 'img \<Rightarrow> string \<Rightarrow> bool \<Rightarrow> ('img solver, string) prog" where
  "solve_image w img source save_processed =
     try_except (solve_image_body w img source save_processed)
       (\<lambda>e. bnd (log_line ERROR (''Failed to solve CAPTCHA image: '' @ exn_str e))
                 (\<lambda>_. ret []))"

text \<open>
  \<^verbatim>\<open>solve_from_file\<close>. \<open>image_path\<close> is the argument as a string (for a \<open>Path\<close>
  argument, its string form).
\<close>

definition solve_from_file ::
  "('img, 'el, 'dr) world \<Rightarrow> string \<Rightarrow> bool \<Rightarrow> ('img solver, string) prog" where
  "solve_from_file w image_path save_processed =
     try_except
       (bnd (lift (validate_image_path w image_path)) (\<lambda>validated_path.
        bnd (lift (image_open w validated_path)) (\<lambda>img.
        bnd (log_line INFO (''Loaded image: '' @ validated_path)) (\<lambda>_.
        bnd (solve_image w img validated_path save_processed) (\<lambda>result.
        bnd (log_line INFO (''CAPTCHA solved: '' @ result)) (\<lambda>_.
        ret result))))))
       (\<lambda>e. bnd (log_line ERROR (''Failed to solve CAPTCHA from file '' @ image_path
                                   @ '': '' @ exn_str e))
                 (\<lambda>_. ret []))"

definition solve_from_url ::
  "('img, 'el, 'dr) world \<Rightarrow> string \<Rightarrow> string list option \<Rightarrow> bool
     \<Rightarrow> ('img solver, string) prog" where
  "solve_from_url w url captcha_selectors save_processed =
     try_except
       (bnd (lift (extract_from_url w url captcha_selectors)) (\<lambda>extracted.
          case extracted of
            None \<Rightarrow>
              bnd (log_line ERROR (''Failed to extract CAPTCHA from URL: '' @ url))
                  (\<lambda>_. ret [])
          | Some img \<Rightarrow>
              bnd (log_line INFO ''Extracted CAPTCHA image'') (\<lambda>_.
              bnd (solve_image w img url save_processed) (\<lambda>result.
              bnd (log_line INFO (''CAPTCHA solved: '' @ result)) (\<lambda>_.
              ret result)))))
       (\<lambda>e. bnd (log_line ERROR (''Failed to solve CAPTCHA from URL '' @ url
                                   @ '': '' @ exn_str e))
                 (\<lambda>_. ret []))"

definition solve_from_element ::
  "('img, 'el, 'dr) world \<Rightarrow> 'el \<Rightarrow> 'dr option \<Rightarrow> bool \<Rightarrow> ('img solver, string) prog" where
  "solve_from_element w web_element driver save_processed =
     try_except
       (bnd (lift (extract_from_element w web_element driver)) (\<lambda>extracted.
          case extracted of
            None \<Rightarrow>
              bnd (log_line ERROR ''Failed to extract CAPTCHA from WebElement'')
                  (\<lambda>_. ret [])
          | Some img \<Rightarrow>
              bnd (log_line INFO ''Extracted CAPTCHA image'') (\<lambda>_.
              bnd (lift (case driver of
                           None \<Rightarrow> Inr ''WebElement''
                         | Some d \<Rightarrow> current_url w d)) (\<lambda>source.
              bnd (solve_image w img source save_processed) (\<lambda>result.
              bnd (log_line INFO (''CAPTCHA solved: '' @ result)) (\<lambda>_.
              ret result))))))
       (\<lambda>e. bnd (log_line ERROR (''Failed to solve CAPTCHA from WebElement: '' @ exn_str e))
                 (\<lambda>_. ret []))"

text \<open>
  One entry of the list that \<^verbatim>\<open>solve_batch\<close> returns. \<open>br_error\<close> is \<open>None\<close> when the
  dict has no \<open>error\<close> key. The \<open>processing_time\<close> entry, a reading of the wall clock,
  is left out.
\<close>

record batch_entry =
  br_path :: string
  br_result :: string
  br_confidence :: real
  br_success :: bool
  br_error :: "string option"

definition batch_item ::
  "('img, 'el, 'dr) world \<Rightarrow> bool \<Rightarrow> string \<Rightarrow> ('img solver, batch_entry) prog" where
  "batch_item w save_processed image_path =
     bnd (log_line INFO (''Processing image: '' @ image_path)) (\<lambda>_.
     try_except
       (bnd (solve_from_file w image_path save_processed) (\<lambda>result.
          (\<lambda>s. ret \<lparr>br_path = image_path, br_result = result,
                     br_confidence = last_confidence s,
                     br_success = (strip result \<noteq> []), br_error = None\<rparr> s)))
       (\<lambda>e. bnd (log_line ERROR (''Failed to process '' @ image_path @ '': '' @ exn_str e))
                 (\<lambda>_. ret \<lparr>br_path = image_path, br_result = [], br_confidence = 0,
                            br_success = False, br_error = Some (exn_str e)\<rparr>)))"

fun batch_loop ::
  "('img, 'el, 'dr) world \<Rightarrow> bool \<Rightarrow> string list \<Rightarrow> batch_entry list
     \<Rightarrow> ('img solver, batch_entry list) prog" where
  "batch_loop w save_processed [] results = ret results"
| "batch_loop w save_processed (image_path # image_paths) results =
     bnd (batch_item w save_processed image_path)
         (\<lambda>entry. batch_loop w save_processed image_paths (results @ [entry]))"

definition solve_batch ::
  "('img, 'el, 'dr) world \<Rightarrow> string list \<Rightarrow> bool \<Rightarrow> ('img solver, batch_entry list) prog" where
  "solve_batch w image_paths save_processed =
     bnd (batch_loop w save_processed image_paths []) (\<lambda>results.
     bnd (log_line INFO ''Batch completed'') (\<lambda>_.
     ret results))"

text \<open>
  Where a solve fails. \<open>image_stage_raises\<close>: one of the calls of \<^verbatim>\<open>_solve_image\<close> before
  the recognition raises (the digest, a save of a debugging image, the preprocessing).
  \<open>image_stage_fails\<close>: that, or the engine raises under every one of the six
  configurations. The predicates for the three sources add the failures of loading or
  extracting the image.
\<close>

definition image_stage_raises ::
  "('img, 'el, 'dr) world \<Rightarrow> string list \<Rightarrow> 'img \<Rightarrow> bool \<Rightarrow> bool" where
  "image_stage_raises w steps img save_processed =
     (case image_digest w img of
        Inl e \<Rightarrow> True
      | Inr image_hash \<Rightarrow>
          (save_processed \<and> isl (image_save w img (cache_path ''original'' image_hash))) \<or>
          (case preprocess (imaging_lib w) steps img of
             Inl e \<Rightarrow> True
           | Inr processed_image \<Rightarrow>
               save_processed \<and>
               isl (image_save w processed_image (cache_path ''processed'' image_hash))))"

definition recognition_fails ::
  "('img, 'el, 'dr) world \<Rightarrow> string list \<Rightarrow> 'img \<Rightarrow> bool" where
  "recognition_fails w steps img =
     (case preprocess (imaging_lib w) steps img of
        Inl e \<Rightarrow> False
      | Inr processed_image \<Rightarrow>
          list_all (\<lambda>c. isl (image_to_data (ocr_engine w) processed_image c)) ocr_configs)"

definition image_stage_fails ::
  "('img, 'el, 'dr) world \<Rightarrow> string list \<Rightarrow> 'img \<Rightarrow> bool \<Rightarrow> bool" where
  "image_stage_fails w steps img save_processed =
     (image_stage_raises w steps img save_processed \<or> recognition_fails w steps img)"

definition file_stage_fails ::
  "('img, 'el, 'dr) world \<Rightarrow> string list \<Rightarrow> string \<Rightarrow> bool \<Rightarrow> bool" where
  "file_stage_fails w steps image_path save_processed =
     (case validate_image_path w image_path of
        Inl e \<Rightarrow> True
      | Inr validated_path \<Rightarrow>
          (case image_open w validated_path of
             Inl e \<Rightarrow> True
           | Inr img \<Rightarrow> image_stage_fails w steps img save_processed))"

definition url_stage_fails ::
  "('img, 'el, 'dr) world \<Rightarrow> string list \<Rightarrow> string \<Rightarrow> string list option \<Rightarrow> bool \<Rightarrow> bool" where
  "url_stage_fails w steps url captcha_selectors save_processed =
     (case extract_from_url w url captcha_selectors of
        Inl e \<Rightarrow> True
      | Inr None \<Rightarrow> True
      | Inr (Some img) \<Rightarrow> image_stage_fails w steps img save_processed)"

definition element_stage_fails ::
  "('img, 'el, 'dr) world \<Rightarrow> string list \<Rightarrow> 'el \<Rightarrow> 'dr option \<Rightarrow> bool \<Rightarrow> bool" where
  "element_stage_fails w steps web_element driver save_processed =
     (case extract_from_element w web_element driver of
        Inl e \<Rightarrow> True
      | Inr None \<Rightarrow> True
      | Inr (Some img) \<Rightarrow>
          (case driver of None \<Rightarrow> False | Some d \<Rightarrow> isl (current_url w d)) \<or>
          image_stage_fails w steps img save_processed)"

text \<open>
  A solve from a file completes when the file is valid and opens and no call before the
  recognition raises; the recognition itself raises nothing.
\<close>

definition file_solve_completes ::
  "('img, 'el, 'dr) world \<Rightarrow> string list \<Rightarrow> string \<Rightarrow> bool \<Rightarrow> bool" where
  "file_solve_completes w steps image_path save_processed =
     (case validate_image_path w image_path of
        Inl e \<Rightarrow> False
      | Inr validated_path \<Rightarrow>
          (case image_open w validated_path of
             Inl e \<Rightarrow> False
           | Inr img \<Rightarrow> \<not> image_stage_raises w steps img save_processed))"

text \<open>The log lines an operation has added, and whether one of them reports a problem.\<close>

definition new_lines :: "'img solver \<Rightarrow> 'img solver \<Rightarrow> (level \<times> string) list" where
  "new_lines s s' = drop (length (logged s)) (logged s')"

definition problem_logged :: "'img solver \<Rightarrow> 'img solver \<Rightarrow> bool" where
  "problem_logged s s' = list_ex (\<lambda>l. fst l = ERROR \<or> fst l = WARNING) (new_lines s s')"






text \<open>
  A small world for concrete runs, on the images of the small imaging library: the
  engine reads \<open>HELLO\<close> with confidence 90 from every image, the files \<open>a.png\<close> and
  \<open>b.png\<close> exist and open, nothing else exists, the extractor finds an image at the
  URL \<open>http://localhost/captcha\<close> and at no other, and in a web element when it is
  given a driver. The solver is as its constructor leaves it with the default
  configuration, which \<^verbatim>\<open>Config()\<close> copies to a new top-level dict at address 9.
\<close>

definition hello_engine :: "toy_image engine" where
  "hello_engine =
     \<lparr>image_to_data = (\<lambda>img cfg. Inr ([''HELLO''], [90])), ascii_fold = (\<lambda>s. s)\<rparr>"

definition toy_world :: "(toy_image, unit, unit) world" where
  "toy_world =
     \<lparr>ocr_engine = hello_engine, imaging_lib = toy_imaging,
      path_exists = (\<lambda>p. p = ''a.png'' \<or> p = ''b.png''),
      path_is_file = (\<lambda>p. p = ''a.png'' \<or> p = ''b.png''),
      image_open = (\<lambda>p. Inr gray_image),
      image_digest = (\<lambda>img. Inr ''0f343b0931126a20f133d67c2b018a3b''),
      image_save = (\<lambda>img p. Inr ()),
      extract_from_url =
        (\<lambda>url sel. if url = ''http://localhost/captcha'' then Inr (Some gray_image)
                    else Inr None),
      extract_from_element =
        (\<lambda>el dr. case dr of None \<Rightarrow> Inr None | Some d \<Rightarrow> Inr (Some gray_image)),
      current_url = (\<lambda>dr. Inr ''http://localhost/''),
      time_time = 1700000000\<rparr>"

definition fresh_solver :: "toy_image solver" where
  "fresh_solver =
     \<lparr>last_processed_image = None, last_confidence = 0, last_result = [],
      processing_history = [], handler = fresh_handler,
      processing_steps = [''grayscale'', ''denoise'', ''threshold'', ''morphology''],
      config_store = class_heap @ [deref class_heap DEFAULT_CONFIG], config = 9,
      logged = []\<rparr>"

section \<open>The CAPTCHA extractor: images from a source attribute (extractor.py)\<close>

text \<open>
  The standard library's Base64 codec, on bytes as \<open>char\<close> (one \<open>char\<close> is one byte)
  and on the encoded text as a string.
  \<open>b64encode\<close> is \<^verbatim>\<open>base64.b64encode\<close>: three bytes become four characters of the
  alphabet, and a last group of one or two bytes is padded with \<open>=\<close>.
\<close>

definition b64_alphabet :: string where
  "b64_alphabet = ''ABCDEFGHIJKLMNOPQRSTUVWXYZabcdefghijklmnopqrstuvwxyz0123456789+/''"

definition b64_char :: "nat \<Rightarrow> char" where
  "b64_char n = b64_alphabet ! n"

fun index_of :: "'a \<Rightarrow> 'a list \<Rightarrow> nat option" where
  "index_of x [] = None"
| "index_of x (y # ys) =
     (if x = y then Some 0 else map_option Suc (index_of x ys))"

definition b64_index :: "char \<Rightarrow> nat option" where
  "b64_index ch = index_of ch b64_alphabet"

definition enc3 :: "char \<Rightarrow> char \<Rightarrow> char \<Rightarrow> string" where
  "enc3 a b c =
     (let x = (of_char a :: nat); y = (of_char b :: nat); z = (of_char c :: nat)
      in [b64_char (x div 4), b64_char (x mod 4 * 16 + y div 16),
          b64_char (y mod 16 * 4 + z div 64), b64_char (z mod 64)])"

definition enc2 :: "char \<Rightarrow> char \<Rightarrow> string" where
  "enc2 a b =
     (let x = (of_char a :: nat); y = (of_char b :: nat)
      in [b64_char (x div 4), b64_char (x mod 4 * 16 + y div 16),
          b64_char (y mod 16 * 4), CHR ''=''])"

definition enc1 :: "char \<Rightarrow> string" where
  "enc1 a =
     (let x = (of_char a :: nat)
      in [b64_char (x div 4), b64_char (x mod 4 * 16), CHR ''='', CHR ''=''])"

fun b64encode :: "char list \<Rightarrow> string" where
  "b64encode (a # b # c # rest) = enc3 a b c @ b64encode rest"
| "b64encode [a, b] = enc2 a b"
| "b64encode [a] = enc1 a"
| "b64encode [] = []"

text \<open>
  \<open>a2b_base64\<close> is the loop of \<^verbatim>\<open>binascii.a2b_base64\<close> in its default, non-strict
  mode, with its variables \<open>quad_pos\<close>, \<open>leftchar\<close> and \<open>pads\<close>: a character outside the
  alphabet is skipped; a \<open>=\<close> that completes a group of four ends the decoding; input
  that ends inside a group is an error. The shifts and masks of the C code are written
  as multiplications, divisions and remainders (the parts that are or'ed have no bit in
  common, so the or is a sum).
\<close>

fun a2b_base64 :: "nat \<Rightarrow> nat \<Rightarrow> nat \<Rightarrow> string \<Rightarrow> char list \<Rightarrow> exn + char list" where
  "a2b_base64 quad_pos leftchar pads [] out =
     (if quad_pos \<noteq> 0 then Inl (LibraryError ''Incorrect padding'') else Inr out)"
| "a2b_base64 quad_pos leftchar pads (ch # rest) out =
     (if ch = CHR ''=''
      then (if quad_pos \<ge> 2
            then (if quad_pos + (pads + 1) \<ge> 4 then Inr out
                  else a2b_base64 quad_pos leftchar (pads + 1) rest out)
            else a2b_base64 quad_pos leftchar pads rest out)
      else (case b64_index ch of
              None \<Rightarrow> a2b_base64 quad_pos leftchar pads rest out
            | Some v \<Rightarrow>
                (if quad_pos = 0 then a2b_base64 1 v 0 rest out
                 else if quad_pos = 1
                 then a2b_base64 2 (v mod 16) 0 rest (out @ [char_of (leftchar * 4 + v div 16)])
                 else if quad_pos = 2
                 then a2b_base64 3 (v mod 4) 0 rest (out @ [char_of (leftchar * 16 + v div 4)])
                 else a2b_base64 0 0 0 rest (out @ [char_of (leftchar * 64 + v)]))))"

text \<open>
  \<^verbatim>\<open>base64.b64decode(s)\<close> of a \<open>str\<close>: the string must be ASCII, and is then decoded.
\<close>

definition b64decode :: "string \<Rightarrow> exn + char list" where
  "b64decode s =
     (if list_ex (\<lambda>c. (of_char c :: nat) \<ge> 128) s
      then Inl (ValueError ''string argument should contain only ASCII characters'')
      else a2b_base64 0 0 0 s [])"

text \<open>
  What the extractor calls: \<open>image_from_bytes\<close> is \<^verbatim>\<open>Image.open(BytesIO(data))\<close>;
  \<open>http_get\<close> is the content of the response that \<^verbatim>\<open>retry_operation\<close> around
  \<^verbatim>\<open>session.get\<close> and \<^verbatim>\<open>raise_for_status\<close> end with, or the exception they end
  with; \<open>urljoin\<close> is \<^verbatim>\<open>urllib.parse.urljoin\<close>.
\<close>

record 'img net =
  image_from_bytes :: "char list \<Rightarrow> exn + 'img"
  http_get :: "string \<Rightarrow> exn + char list"
  urljoin :: "string \<Rightarrow> string \<Rightarrow> string"

definition startswith :: "string \<Rightarrow> string \<Rightarrow> bool" where
  "startswith s p = (take (length p) s = p)"

text \<open>
  \<^verbatim>\<open>re.match(r'data:image/[^;]+;base64,(.+)', data_uri)\<close> and its group 1. The class
  \<^verbatim>\<open>[^;]+\<close> is greedy and is followed by a \<open>;\<close>, so it takes everything up to the first
  \<open>;\<close>; the dot matches every character but the newline, so the group is everything up
  to the first newline. Both must take at least one character.
\<close>

definition match_data_uri :: "string \<Rightarrow> string option" where
  "match_data_uri data_uri =
     (if \<not> startswith data_uri ''data:image/'' then None
      else (let r = drop (length ''data:image/'') data_uri;
                subtype = takeWhile (\<lambda>c. c \<noteq> CHR '';'') r;
                r2 = drop (length subtype) r
            in if subtype = [] \<or> \<not> startswith r2 '';base64,'' then None
               else (let group1 = takeWhile (\<lambda>c. c \<noteq> CHR 0x0A)
                                    (drop (length '';base64,'') r2)
                     in if group1 = [] then None else Some group1)))"

text \<open>
  \<^verbatim>\<open>_decode_data_uri\<close>, \<^verbatim>\<open>_download_image_from_src\<close> and \<^verbatim>\<open>download_image\<close>: each
  returns the image or \<open>None\<close>, and each catches every exception raised inside it.
\<close>

definition decode_data_uri :: "'img net \<Rightarrow> string \<Rightarrow> 'img option" where
  "decode_data_uri env data_uri =
     (case match_data_uri data_uri of
        None \<Rightarrow> None
      | Some base64_data \<Rightarrow>
          (case b64decode base64_data of
             Inl e \<Rightarrow> None
           | Inr image_data \<Rightarrow>
               (case image_from_bytes env image_data of
                  Inl e \<Rightarrow> None
                | Inr img \<Rightarrow> Some img)))"

definition resolve_url :: "'img net \<Rightarrow> string option \<Rightarrow> string \<Rightarrow> string" where
  "resolve_url env base_url url =
     (case base_url of
        None \<Rightarrow> url
      | Some base \<Rightarrow>
          (if base \<noteq> [] \<and> \<not> (startswith url ''http://'' \<or> startswith url ''https://'')
           then urljoin env base url else url))"

definition download_image_from_src :: "'img net \<Rightarrow> string \<Rightarrow> string option \<Rightarrow> 'img option" where
  "download_image_from_src env src base_url =
     (if startswith src ''data:'' then decode_data_uri env src
      else (case http_get env (resolve_url env base_url src) of
              Inl e \<Rightarrow> None
            | Inr content \<Rightarrow>
                (case image_from_bytes env content of
                   Inl e \<Rightarrow> None
                 | Inr img \<Rightarrow> Some img)))"

definition download_image :: "'img net \<Rightarrow> string \<Rightarrow> string option \<Rightarrow> 'img option" where
  "download_image env image_url base_url =
     download_image_from_src env (resolve_url env base_url image_url) base_url"

text \<open>
  A network for concrete runs in which every byte string opens as an image (the image
  is the byte string itself), so that a \<open>None\<close> from the extractor is the extractor's
  own doing.
\<close>

definition open_net :: "(char list) net" where
  "open_net =
     \<lparr>image_from_bytes = Inr, http_get = (\<lambda>url. Inl (LibraryError ''unreachable'')),
      urljoin = (\<lambda>base url. url)\<rparr>"

section \<open>Properties of the configuration store\<close>





















text \<open>
  Claim C2. \<^verbatim>\<open>validate_config\<close> checks the step names against a list of five names:
  \<open>enhance\<close>, the sixth step that \<^verbatim>\<open>ImagePreprocessor.preprocess\<close> runs and that
  \<^verbatim>\<open>get_processing_info\<close> lists as available, is not among them. A configuration file
  whose step list is \<open>[grayscale, enhance]\<close> makes the constructor raise
  \<open>ValueError("Invalid preprocessing step: enhance")\<close>.
\<close>

theorem validate_config_rejects_enhance:
  "snd (Config_init enhance_fs class_heap (Some ''cfg.json'')) =
     Inl (ValueError ''Invalid preprocessing step: enhance'') \<and>
   check_steps [VStr ''grayscale'', VStr ''enhance''] =
     Inl (ValueError ''Invalid preprocessing step: enhance'') \<and>
   ''enhance'' \<notin> set valid_steps"
proof -
  have a: "snd (Config_init enhance_fs class_heap (Some ''cfg.json'')) =
     Inl (ValueError ''Invalid preprocessing step: enhance'')"
    by (simp add: Config_init_def enhance_fs_def class_heap_def new_dict_def deref_def
        DEFAULT_CONFIG_def load_from_file_def dict_get_def setitem_def dict_set_def
        validate_config_def required_sections_def section_item_def valid_steps_def)
  have b: "check_steps [VStr ''grayscale'', VStr ''enhance''] =
     Inl (ValueError ''Invalid preprocessing step: enhance'')"
    by (simp add: valid_steps_def)
  have c: "''enhance'' \<notin> set valid_steps"
    by (simp add: valid_steps_def)
  from a b c show ?thesis by blast
qed

section \<open>Properties of the OCR recognizer\<close>

lemma collect_words_zip:
  "i + length ws \<le> length conf \<Longrightarrow>
   collect_words i ws conf =
     Inr (filter (\<lambda>w. strip w \<noteq> []) ws,
          map snd (filter (\<lambda>p. strip (fst p) \<noteq> []) (zip ws (drop i conf))))"
proof (induction ws arbitrary: i)
  case Nil
  then show ?case by simp
next
  case (Cons w ws)
  then have i: "i < length conf" and rest: "Suc i + length ws \<le> length conf" by simp_all
  have d: "drop i conf = conf ! i # drop (Suc i) conf"
    using i by (simp add: Cons_nth_drop_Suc)
  show ?case
    using Cons.IH[OF rest] i by (simp add: d)
qed

lemma average_confidence_mean:
  "average_confidence cs =
     (let kept = filter (\<lambda>c. 0 < c) cs
      in if kept = [] then 0 else sum_list kept / real (length kept))"
  by (auto simp: average_confidence_def Let_def list_ex_iff filter_empty_conv)

text \<open>
  Claim C3, as the code has it. The confidence that \<^verbatim>\<open>recognize_text\<close> records is the
  mean of the confidence values that are strictly positive, taken over the tokens whose
  text is not blank; it is 0 when no such value exists, and 0 when the engine raises.
  (The engine's two columns have the same length.)
\<close>

theorem recognize_text_confidence:
  "(image_to_data e img (effective_config h cfg) = Inl x \<longrightarrow>
      get_confidence (snd (recognize_text e h img cfg)) = 0) \<and>
   (image_to_data e img (effective_config h cfg) = Inr (words, conf) \<and>
    length words = length conf \<longrightarrow>
      get_confidence (snd (recognize_text e h img cfg)) =
        (let kept = [c. (w, c) \<leftarrow> zip words conf, strip w \<noteq> [], 0 < c]
         in if kept = [] then 0 else sum_list kept / real (length kept)))"
proof -
  have k: "[c. (w, c) \<leftarrow> zip words conf, strip w \<noteq> [], 0 < c] =
        filter (\<lambda>c. 0 < c) (map snd (filter (\<lambda>p. strip (fst p) \<noteq> []) (zip words conf)))"
    by (induction words conf rule: list_induct2') auto
  show ?thesis
    by (auto simp: get_confidence_def recognize_text_def Let_def collect_words_zip
        average_confidence_mean k)
qed

theorem recognize_text_confidence_witness:
  "get_confidence (snd (recognize_text zero_conf_engine fresh_handler () None)) = 50"
  using recognize_text_confidence[of zero_conf_engine "()" fresh_handler None undefined "[''AB'', ''CD'']" "[0, 50]"]
  by (simp add: zero_conf_engine_def strip_def py_isspace_def)

text \<open>
  The claim as stated fails: the engine reports the confidences 0 and 50 for two words;
  the mean of the non-negative values is 25, and the code records 50.
\<close>

theorem confidence_not_mean_of_non_negative:
  "image_to_data zero_conf_engine () (effective_config fresh_handler None) = Inr ([''AB'', ''CD''], [0, 50]) \<and>
   get_confidence (snd (recognize_text zero_conf_engine fresh_handler () None)) = 50 \<and>
   mean_of_non_negative [0, 50] = 25"
  by (simp add: zero_conf_engine_def get_confidence_def recognize_text_def Let_def strip_def py_isspace_def
      average_confidence_def mean_of_non_negative_def)

lemma recognize_text_default_config:
  "default_config (snd (recognize_text e h img c)) = default_config h"
  by (simp add: recognize_text_def Let_def split: sum.splits prod.splits)

lemma attempt_same_default:
  "default_config h' = default_config h \<Longrightarrow> attempt e h' img c = attempt e h img c"
  by (simp add: attempt_def recognize_text_def effective_config_def Let_def split: sum.splits prod.splits)

lemma candidates_Cons:
  "candidates lo (r # rs) =
     (if strip (fst r) \<noteq> [] \<and> lo < snd r then r # candidates lo rs else candidates lo rs)"
  by (simp add: candidates_def)

lemma candidates_mono:
  "lo \<le> lo' \<Longrightarrow> set (candidates lo' rs) \<subseteq> set (candidates lo rs)"
  by (auto simp: candidates_def)

lemma first_highest_head:
  assumes "candidates (snd r) rs = []" and "lo < snd r"
  shows "first_highest (r # candidates lo rs) = r"
proof -
  have le: "snd x \<le> snd r" if "x \<in> set (candidates lo rs)" for x
    using assms(1) that by (auto simp: candidates_def filter_empty_conv not_less)
  have "Max (set (map snd (r # candidates lo rs))) = snd r"
    by (rule Max_eqI) (auto dest: le)
  then show ?thesis by (simp add: first_highest_def)
qed

lemma first_highest_tail:
  assumes ne: "candidates (snd r) rs \<noteq> []" and lo: "lo < snd r"
  shows "first_highest (r # candidates lo rs) = first_highest (candidates (snd r) rs)"
proof -
  let ?hi = "candidates (snd r) rs"
  let ?m = "Max (set (map snd ?hi))"
  have fin: "finite (set (map snd ?hi))" and nonempty: "set (map snd ?hi) \<noteq> {}"
    using ne by auto
  have m_in: "?m \<in> set (map snd ?hi)" using Max_in[OF fin nonempty] .
  then have m_gt: "snd r < ?m" by (auto simp: candidates_def)
  have same_max: "Max (set (map snd (r # candidates lo rs))) = ?m"
  proof (rule Max_eqI)
    show "finite (set (map snd (r # candidates lo rs)))" by simp
  next
    fix y assume "y \<in> set (map snd (r # candidates lo rs))"
    then consider "y = snd r" | x where "x \<in> set (candidates lo rs)" "y = snd x" by auto
    then show "y \<le> ?m"
    proof cases
      case 1 then show ?thesis using m_gt by simp
    next
      case 2
      show ?thesis
      proof (cases "snd r < y")
        case True
        then have "x \<in> set ?hi" using 2 by (auto simp: candidates_def)
        then have "y \<in> set (map snd ?hi)" using 2 by auto
        then show ?thesis using Max_ge[OF fin] by blast
      next
        case False then show ?thesis using m_gt by simp
      qed
    qed
  next
    have "set ?hi \<subseteq> set (candidates lo rs)"
      using lo by (intro candidates_mono) simp
    then show "?m \<in> set (map snd (r # candidates lo rs))" using m_in by auto
  qed
  have flt: "filter (\<lambda>x. snd x = ?m) (candidates lo rs) = filter (\<lambda>x. snd x = ?m) ?hi"
    using m_gt lo unfolding candidates_def filter_filter
    by (intro filter_cong) auto
  show ?thesis
    unfolding first_highest_def same_max using m_gt flt by simp
qed

lemma try_configs_best:
  "fst (try_configs e h img cs (bt, bc)) =
     (if candidates bc (map (attempt e h img) cs) = [] then (bt, bc)
      else first_highest (candidates bc (map (attempt e h img) cs)))"
proof (induction cs arbitrary: h bt bc)
  case Nil
  then show ?case by (simp add: candidates_def)
next
  case (Cons c cs)
  obtain tx h' where r: "recognize_text e h img (Some c) = (tx, h')"
    by (cases "recognize_text e h img (Some c)")
  have dc: "default_config h' = default_config h"
    using recognize_text_default_config[of e h img "Some c"] r by simp
  have at: "attempt e h img c = (tx, ocr_last_confidence h')"
    by (simp add: attempt_def r)
  have rest: "map (attempt e h' img) cs = map (attempt e h img) cs"
    by (simp add: attempt_same_default[OF dc])
  let ?rs = "map (attempt e h img) cs"
  show ?case
  proof (cases "ocr_last_confidence h' > bc \<and> strip tx \<noteq> []")
    case True
    then have "fst (try_configs e h img (c # cs) (bt, bc)) =
        fst (try_configs e h' img cs (tx, ocr_last_confidence h'))"
      by (simp add: r)
    also have "\<dots> = (if candidates (ocr_last_confidence h') ?rs = [] then (tx, ocr_last_confidence h')
                   else first_highest (candidates (ocr_last_confidence h') ?rs))"
      by (simp add: Cons.IH rest)
    also have "\<dots> = first_highest ((tx, ocr_last_confidence h') # candidates bc ?rs)"
      using True first_highest_head[of "(tx, ocr_last_confidence h')" ?rs bc]
        first_highest_tail[of "(tx, ocr_last_confidence h')" ?rs bc]
      by auto
    finally show ?thesis using True by (simp add: candidates_Cons at)
  next
    case False
    then have "fst (try_configs e h img (c # cs) (bt, bc)) = fst (try_configs e h' img cs (bt, bc))"
      by (auto simp: r)
    then show ?thesis using False by (auto simp: Cons.IH rest candidates_Cons at)
  qed
qed

text \<open>
  Claim C4, as the code has it. \<^verbatim>\<open>recognize_with_multiple_configs\<close> runs the six
  configurations in order and returns the first attempt of highest confidence among the
  attempts whose text is not empty and whose confidence is strictly positive; when no
  attempt has both, it returns \<open>("", 0.0)\<close>. The handler's earlier state plays no part
  beyond its default configuration, which none of the six attempts uses.
\<close>

theorem recognize_with_multiple_configs_best:
  "fst (recognize_with_multiple_configs e h img) = best_attempt (map (attempt e h img) ocr_configs)"
proof -
  obtain bt bc h' where r: "try_configs e h img ocr_configs ([], 0) = ((bt, bc), h')"
    by (cases "try_configs e h img ocr_configs ([], 0)") auto
  have "fst (recognize_with_multiple_configs e h img) = fst (try_configs e h img ocr_configs ([], 0))"
    by (simp add: recognize_with_multiple_configs_def r)
  then show ?thesis
    by (simp add: try_configs_best best_attempt_def)
qed

text \<open>
  The claim as stated fails where a non-empty text comes with confidence 0: every
  attempt reads \<open>AB\<close> with confidence 0, the non-empty attempt of highest confidence is
  \<open>("AB", 0)\<close>, and the code returns \<open>("", 0.0)\<close>, because the loop starts from
  \<open>best_confidence = 0.0\<close> and replaces only on a strictly greater confidence.
\<close>

theorem zero_confidence_text_is_dropped:
  "map (attempt all_zero_engine fresh_handler ()) ocr_configs = replicate 6 (''AB'', 0) \<and>
   fst (recognize_with_multiple_configs all_zero_engine fresh_handler ()) = ([], 0) \<and>
   best_non_empty (replicate 6 (''AB'', 0)) = (''AB'', 0)"
  by (simp add: all_zero_engine_def fresh_handler_def ocr_configs_def attempt_def
      recognize_with_multiple_configs_def recognize_text_def effective_config_def Let_def
      strip_def py_isspace_def average_confidence_def clean_ocr_result_def clean_text_def
      py_isprintable_def ocr_artifacts_def best_non_empty_def non_empty_attempts_def
      first_highest_def numeral_eq_Suc)

section \<open>Properties of the image preprocessor\<close>

text \<open>
  Claim C8. The grayscale step is idempotent: running it on its own result gives that
  result again, and when it raises there is nothing to run it on. The one thing asked
  of the imaging library is that \<^verbatim>\<open>image.convert('L')\<close>, when it returns, returns an
  image whose mode is \<open>L\<close>.
\<close>

theorem grayscale_idempotent:
  assumes "\<And>i j. img_convert lib i ''L'' = Inr j \<Longrightarrow> img_mode lib j = ''L''"
  shows "and_then (convert_to_grayscale lib img) (convert_to_grayscale lib) =
         convert_to_grayscale lib img"
proof (cases "convert_to_grayscale lib img")
  case (Inl e)
  then show ?thesis by (simp add: and_then_def)
next
  case (Inr j)
  have "img_mode lib j = ''L''"
  proof (cases "img_mode lib img = ''L''")
    case True
    then show ?thesis using Inr by (simp add: convert_to_grayscale_def)
  next
    case False
    then have "img_convert lib img ''L'' = Inr j" using Inr by (simp add: convert_to_grayscale_def)
    then show ?thesis by (rule assms)
  qed
  then have "convert_to_grayscale lib j = Inr j" by (simp add: convert_to_grayscale_def)
  then show ?thesis using Inr by (simp add: and_then_def)
qed

theorem grayscale_idempotent_witness:
  "and_then (convert_to_grayscale toy_imaging rgb_image) (convert_to_grayscale toy_imaging) =
     convert_to_grayscale toy_imaging rgb_image \<and>
   convert_to_grayscale toy_imaging rgb_image = Inr gray_image \<and>
   rgb_image \<noteq> gray_image"
proof -
  have contract: "img_mode toy_imaging j = ''L''" if "img_convert toy_imaging i ''L'' = Inr j" for i j
    using that by (auto simp: toy_imaging_def toy_convert_def split: if_splits)
  have conv: "convert_to_grayscale toy_imaging rgb_image = Inr gray_image"
    by (simp add: convert_to_grayscale_def toy_imaging_def toy_convert_def rgb_image_def gray_image_def)
  have ne: "rgb_image \<noteq> gray_image"
    by (simp add: rgb_image_def gray_image_def)
  show ?thesis
    using grayscale_idempotent[of toy_imaging rgb_image, OF contract] conv ne by simp
qed





section \<open>Properties of the solver orchestrator\<close>

lemmas prog_defs = bnd_def lift_def try_except_def only_if_def log_line_def assign_def ret_def

lemma last_100_short: "length xs \<le> 100 \<Longrightarrow> last_100 xs = xs"
  by (simp add: last_100_def)


lemma trim_last_100:
  "(if length xs > 100 then last_100 xs else xs) = last_100 xs"
  by (simp add: last_100_def)

lemma new_lines_append: "logged s' = logged s @ new \<Longrightarrow> new_lines s s' = new"
  by (simp add: new_lines_def)

lemma attempt_engine_raises:
  assumes "isl (image_to_data e img c)" and "c \<noteq> []"
  shows "attempt e h img c = ([], 0)"
  using assms
  by (auto simp: attempt_def recognize_text_def effective_config_def Let_def isl_def)

lemma recognize_all_raise:
  assumes "list_all (\<lambda>c. isl (image_to_data e img c)) ocr_configs"
  shows "fst (recognize_with_multiple_configs e h img) = ([], 0)"
proof -
  have ne: "\<forall>c \<in> set ocr_configs. c \<noteq> []"
    by (simp add: ocr_configs_def)
  have "map (attempt e h img) ocr_configs = map (\<lambda>c. ([], 0)) ocr_configs"
    using assms ne by (intro map_cong[OF refl]) (auto simp: list_all_iff attempt_engine_raises)
  then have c: "candidates 0 (map (attempt e h img) ocr_configs) = []"
    by (simp add: candidates_def)
  obtain bt bc h' where r: "try_configs e h img ocr_configs ([], 0) = ((bt, bc), h')"
    by (cases "try_configs e h img ocr_configs ([], 0)") auto
  have "fst (try_configs e h img ocr_configs ([], 0)) = ([], 0)"
    using try_configs_best[of e h img ocr_configs "[]" 0] c by simp
  then show ?thesis
    by (simp add: recognize_with_multiple_configs_def r)
qed

lemma validate_result_empty:
  "\<exists>s'. (validate_result [] c s = (Inr False, s') \<or> (\<exists>e. validate_result [] c s = (Inl e, s'))) \<and> s' = s"
  by (auto simp: validate_result_def prog_defs split: option.splits)

lemma validate_result_frame:
  assumes "validate_result t c s = (r, s')"
  shows "processing_steps s' = processing_steps s \<and> processing_history s' = processing_history s \<and>
         (\<exists>new. logged s' = logged s @ new)"
  using assms
  by (auto simp: validate_result_def prog_defs split: option.splits if_splits)

lemma solve_image_raises:
  assumes "image_stage_raises w (processing_steps s) img sp"
  shows "\<exists>s'. solve_image w img src sp s = (Inr [], s') \<and>
           processing_steps s' = processing_steps s \<and>
           processing_history s' = processing_history s \<and>
           last_confidence s' = last_confidence s \<and>
           (\<exists>pre msg. logged s' = logged s @ pre @ [(ERROR, msg)])"
  using assms
  by (auto simp: image_stage_raises_def solve_image_def solve_image_body_def prog_defs
      run_preprocess_def isl_def split: sum.splits if_splits)


lemma solve_image_completes:
  assumes "\<not> image_stage_raises w (processing_steps s) img sp"
  shows "\<exists>t s' entry new. solve_image w img src sp s = (Inr t, s') \<and>
     processing_steps s' = processing_steps s \<and>
     processing_history s' = last_100 (processing_history s @ [entry]) \<and>
     pr_source entry = src \<and> logged s' = logged s @ new \<and>
     (recognition_fails w (processing_steps s) img \<longrightarrow>
        t = [] \<and> list_ex (\<lambda>l. fst l = ERROR \<or> fst l = WARNING) new)"
proof -
  obtain ih where ih: "image_digest w img = Inr ih"
    using assms by (auto simp: image_stage_raises_def split: sum.splits)
  obtain p where p: "preprocess (imaging_lib w) (processing_steps s) img = Inr p"
    using assms ih by (auto simp: image_stage_raises_def split: sum.splits)
  have s1: "sp \<Longrightarrow> image_save w img (cache_path ''original'' ih) = Inr ()"
    using assms ih by (cases "image_save w img (cache_path ''original'' ih)") (auto simp: image_stage_raises_def)
  have s2: "sp \<Longrightarrow> image_save w p (cache_path ''processed'' ih) = Inr ()"
    using assms ih p by (cases "image_save w p (cache_path ''processed'' ih)") (auto simp: image_stage_raises_def)
  obtain rt rc h' where r: "recognize_with_multiple_configs (ocr_engine w) (handler s) p = ((rt, rc), h')"
    by (cases "recognize_with_multiple_configs (ocr_engine w) (handler s) p") auto
  have rf: "rt = []" if "recognition_fails w (processing_steps s) img"
    using that recognize_all_raise[of "ocr_engine w" p "handler s"] r p
    by (simp add: recognition_fails_def)
  show ?thesis
    using ih p s1 s2 r rf
    apply (cases sp)
    apply (auto simp: solve_image_def solve_image_body_def prog_defs run_preprocess_def run_ocr_def
        record_processing_def validate_result_def Let_def trim_last_100
        split: option.splits)
    done
qed


lemma solve_image_spec:
  "\<exists>t s' new. solve_image w img src sp s = (Inr t, s') \<and>
     processing_steps s' = processing_steps s \<and> logged s' = logged s @ new \<and>
     (if image_stage_raises w (processing_steps s) img sp
      then processing_history s' = processing_history s \<and> t = [] \<and>
           last_confidence s' = last_confidence s \<and>
           list_ex (\<lambda>l. fst l = ERROR) new
      else (\<exists>entry. processing_history s' = last_100 (processing_history s @ [entry]) \<and>
              pr_source entry = src) \<and>
           (recognition_fails w (processing_steps s) img \<longrightarrow>
              t = [] \<and> list_ex (\<lambda>l. fst l = ERROR \<or> fst l = WARNING) new))"
proof (cases "image_stage_raises w (processing_steps s) img sp")
  case True
  from solve_image_raises[OF True, of src] show ?thesis
    using True by auto
next
  case False
  from solve_image_completes[OF False, of src] show ?thesis
    using False by auto
qed

lemma solve_from_file_spec:
  "\<exists>t s' new. solve_from_file w pth sp s = (Inr t, s') \<and>
     processing_steps s' = processing_steps s \<and> logged s' = logged s @ new \<and>
     (if file_solve_completes w (processing_steps s) pth sp
      then (\<exists>entry. processing_history s' = last_100 (processing_history s @ [entry]) \<and>
              pr_source entry = path_str pth)
      else processing_history s' = processing_history s \<and> t = [] \<and>
           last_confidence s' = last_confidence s \<and>
           list_ex (\<lambda>l. fst l = ERROR) new) \<and>
     (file_stage_fails w (processing_steps s) pth sp \<longrightarrow>
        t = [] \<and> list_ex (\<lambda>l. fst l = ERROR \<or> fst l = WARNING) new)"
proof (cases "validate_image_path w pth")
  case (Inl e)
  then show ?thesis
    by (simp add: solve_from_file_def prog_defs file_solve_completes_def file_stage_fails_def)
next
  case (Inr vp)
  then have vp: "vp = path_str pth"
    by (auto simp: validate_image_path_def Let_def split: if_splits)
  show ?thesis
  proof (cases "image_open w vp")
    case (Inl e)
    then show ?thesis using Inr
      by (simp add: solve_from_file_def prog_defs file_solve_completes_def file_stage_fails_def)
  next
    case img: (Inr img)
    let ?s1 = "s\<lparr>logged := logged s @ [(INFO, ''Loaded image: '' @ vp)]\<rparr>"
    obtain t s' new where si: "solve_image w img vp sp ?s1 = (Inr t, s')"
        and steps: "processing_steps s' = processing_steps ?s1"
        and lg: "logged s' = logged ?s1 @ new"
        and rest: "(if image_stage_raises w (processing_steps ?s1) img sp
      then processing_history s' = processing_history ?s1 \<and> t = [] \<and>
           last_confidence s' = last_confidence ?s1 \<and>
           list_ex (\<lambda>l. fst l = ERROR) new
      else (\<exists>entry. processing_history s' = last_100 (processing_history ?s1 @ [entry]) \<and>
              pr_source entry = vp) \<and>
           (recognition_fails w (processing_steps ?s1) img \<longrightarrow>
              t = [] \<and> list_ex (\<lambda>l. fst l = ERROR \<or> fst l = WARNING) new))"
      using solve_image_spec[of w img vp sp ?s1] by blast
    have run: "solve_from_file w pth sp s =
        (Inr t, s'\<lparr>logged := logged s' @ [(INFO, ''CAPTCHA solved: '' @ t)]\<rparr>)"
      using Inr img si by (simp add: solve_from_file_def prog_defs)
    show ?thesis
      using rest steps lg Inr img vp
      by (auto simp: run file_solve_completes_def file_stage_fails_def image_stage_fails_def
          list_ex_iff split: if_splits)
  qed
qed


lemma solve_from_url_spec:
  "\<exists>t s' new. solve_from_url w url sel sp s = (Inr t, s') \<and>
     processing_steps s' = processing_steps s \<and> logged s' = logged s @ new \<and>
     (processing_history s' = processing_history s \<or>
      (\<exists>entry. processing_history s' = last_100 (processing_history s @ [entry]) \<and>
         pr_source entry = url)) \<and>
     (url_stage_fails w (processing_steps s) url sel sp \<longrightarrow>
        t = [] \<and> list_ex (\<lambda>l. fst l = ERROR \<or> fst l = WARNING) new)"
proof (cases "extract_from_url w url sel")
  case (Inl e)
  then show ?thesis
    by (simp add: solve_from_url_def prog_defs url_stage_fails_def)
next
  case (Inr extracted)
  show ?thesis
  proof (cases extracted)
    case None
    then show ?thesis using Inr
      by (simp add: solve_from_url_def prog_defs url_stage_fails_def)
  next
    case (Some img)
    let ?s1 = "s\<lparr>logged := logged s @ [(INFO, ''Extracted CAPTCHA image'')]\<rparr>"
    obtain t s' new where si: "solve_image w img url sp ?s1 = (Inr t, s')"
        and steps: "processing_steps s' = processing_steps ?s1"
        and lg: "logged s' = logged ?s1 @ new"
        and rest: "(if image_stage_raises w (processing_steps ?s1) img sp
      then processing_history s' = processing_history ?s1 \<and> t = [] \<and>
           last_confidence s' = last_confidence ?s1 \<and>
           list_ex (\<lambda>l. fst l = ERROR) new
      else (\<exists>entry. processing_history s' = last_100 (processing_history ?s1 @ [entry]) \<and>
              pr_source entry = url) \<and>
           (recognition_fails w (processing_steps ?s1) img \<longrightarrow>
              t = [] \<and> list_ex (\<lambda>l. fst l = ERROR \<or> fst l = WARNING) new))"
      using solve_image_spec[of w img url sp ?s1] by blast
    have run: "solve_from_url w url sel sp s =
        (Inr t, s'\<lparr>logged := logged s' @ [(INFO, ''CAPTCHA solved: '' @ t)]\<rparr>)"
      using Inr Some si by (simp add: solve_from_url_def prog_defs)
    show ?thesis
      using rest steps lg Inr Some
      by (auto simp: run url_stage_fails_def image_stage_fails_def list_ex_iff split: if_splits)
  qed
qed

lemma solve_from_element_spec:
  "\<exists>t s' new. solve_from_element w el dr sp s = (Inr t, s') \<and>
     processing_steps s' = processing_steps s \<and> logged s' = logged s @ new \<and>
     (processing_history s' = processing_history s \<or>
      (\<exists>entry. processing_history s' = last_100 (processing_history s @ [entry]))) \<and>
     (element_stage_fails w (processing_steps s) el dr sp \<longrightarrow>
        t = [] \<and> list_ex (\<lambda>l. fst l = ERROR \<or> fst l = WARNING) new)"
proof (cases "extract_from_element w el dr")
  case (Inl e)
  then show ?thesis
    by (simp add: solve_from_element_def prog_defs element_stage_fails_def)
next
  case (Inr extracted)
  show ?thesis
  proof (cases extracted)
    case None
    then show ?thesis using Inr
      by (simp add: solve_from_element_def prog_defs element_stage_fails_def)
  next
    case (Some img)
    let ?s1 = "s\<lparr>logged := logged s @ [(INFO, ''Extracted CAPTCHA image'')]\<rparr>"
    show ?thesis
    proof (cases "case dr of None \<Rightarrow> Inr ''WebElement'' | Some d \<Rightarrow> current_url w d")
      case (Inl e)
      then have "isl (case dr of None \<Rightarrow> Inr ''WebElement'' | Some d \<Rightarrow> current_url w d)" by simp
      then have f: "(case dr of None \<Rightarrow> False | Some d \<Rightarrow> isl (current_url w d))"
        by (cases dr) auto
      show ?thesis using Inl Inr Some f
        by (simp add: solve_from_element_def prog_defs element_stage_fails_def)
    next
      case src: (Inr src)
      then have nf: "\<not> (case dr of None \<Rightarrow> False | Some d \<Rightarrow> isl (current_url w d))"
        by (cases dr) auto
      obtain t s' new where si: "solve_image w img src sp ?s1 = (Inr t, s')"
        and steps: "processing_steps s' = processing_steps ?s1"
        and lg: "logged s' = logged ?s1 @ new"
        and rest: "(if image_stage_raises w (processing_steps ?s1) img sp
      then processing_history s' = processing_history ?s1 \<and> t = [] \<and>
           last_confidence s' = last_confidence ?s1 \<and>
           list_ex (\<lambda>l. fst l = ERROR) new
      else (\<exists>entry. processing_history s' = last_100 (processing_history ?s1 @ [entry]) \<and>
              pr_source entry = src) \<and>
           (recognition_fails w (processing_steps ?s1) img \<longrightarrow>
              t = [] \<and> list_ex (\<lambda>l. fst l = ERROR \<or> fst l = WARNING) new))"
        using solve_image_spec[of w img src sp ?s1] by blast
      have run: "solve_from_element w el dr sp s =
        (Inr t, s'\<lparr>logged := logged s' @ [(INFO, ''CAPTCHA solved: '' @ t)]\<rparr>)"
        using Inr Some src si by (simp add: solve_from_element_def prog_defs)
      show ?thesis
        using rest steps lg Inr Some nf
        by (auto simp: run element_stage_fails_def image_stage_fails_def list_ex_iff split: if_splits)
    qed
  qed
qed



text \<open>
  Claim C1. The three solve operations never raise: each returns a string from every
  state, whatever the world does. When a stage fails (the file is missing or not a valid
  image file, the image does not open, the extractor finds no image or raises, the
  digest, a debugging save or the preprocessing raises, or the engine raises under every
  configuration) the string returned is empty and the solver has logged a line of level
  \<open>ERROR\<close> or \<open>WARNING\<close>. (An exception that reaches the solver is logged as
  \<open>ERROR\<close>; an engine failure is caught inside the recognizer and reaches the solver as
  an empty text of confidence 0.)
\<close>

theorem solve_operations_never_raise:
  "(\<exists>t s'. solve_from_file w pth sp s = (Inr t, s') \<and>
      (file_stage_fails w (processing_steps s) pth sp \<longrightarrow> t = [] \<and> problem_logged s s')) \<and>
   (\<exists>t s'. solve_from_url w url sel sp s = (Inr t, s') \<and>
      (url_stage_fails w (processing_steps s) url sel sp \<longrightarrow> t = [] \<and> problem_logged s s')) \<and>
   (\<exists>t s'. solve_from_element w el dr sp s = (Inr t, s') \<and>
      (element_stage_fails w (processing_steps s) el dr sp \<longrightarrow> t = [] \<and> problem_logged s s'))"
proof (intro conjI)
  from solve_from_file_spec[of w pth sp s]
  show "\<exists>t s'. solve_from_file w pth sp s = (Inr t, s') \<and>
      (file_stage_fails w (processing_steps s) pth sp \<longrightarrow> t = [] \<and> problem_logged s s')"
    by (auto simp: problem_logged_def new_lines_def)
next
  from solve_from_url_spec[of w url sel sp s]
  show "\<exists>t s'. solve_from_url w url sel sp s = (Inr t, s') \<and>
      (url_stage_fails w (processing_steps s) url sel sp \<longrightarrow> t = [] \<and> problem_logged s s')"
    by (auto simp: problem_logged_def new_lines_def)
next
  from solve_from_element_spec[of w el dr sp s]
  show "\<exists>t s'. solve_from_element w el dr sp s = (Inr t, s') \<and>
      (element_stage_fails w (processing_steps s) el dr sp \<longrightarrow> t = [] \<and> problem_logged s s')"
    by (auto simp: problem_logged_def new_lines_def)
qed

lemma missing_png_invalid:
  "validate_image_path toy_world ''missing.png'' =
     Inl (FileNotFoundError ''Image file not found: missing.png'')"
  by (simp add: validate_image_path_def toy_world_def path_str_def path_root_def path_parts_def)

theorem solve_operations_never_raise_witness:
  "file_stage_fails toy_world (processing_steps fresh_solver) ''missing.png'' False \<and>
   fst (solve_from_file toy_world ''missing.png'' False fresh_solver) = Inr [] \<and>
   problem_logged fresh_solver (snd (solve_from_file toy_world ''missing.png'' False fresh_solver)) \<and>
   url_stage_fails toy_world (processing_steps fresh_solver) ''http://localhost/'' None False \<and>
   fst (solve_from_url toy_world ''http://localhost/'' None False fresh_solver) = Inr [] \<and>
   element_stage_fails toy_world (processing_steps fresh_solver) () None False \<and>
   fst (solve_from_element toy_world () None False fresh_solver) = Inr []"
proof -
  have f: "file_stage_fails toy_world (processing_steps fresh_solver) ''missing.png'' False"
    by (simp add: file_stage_fails_def missing_png_invalid)
  have u: "url_stage_fails toy_world (processing_steps fresh_solver) ''http://localhost/'' None False"
    by (simp add: url_stage_fails_def toy_world_def)
  have e: "element_stage_fails toy_world (processing_steps fresh_solver) () None False"
    by (simp add: element_stage_fails_def toy_world_def)
  show ?thesis
    using solve_operations_never_raise[of toy_world "''missing.png''" False fresh_solver
        "''http://localhost/''" None "()" None] f u e
    by auto
qed

lemma toy_preprocess:
  "preprocess toy_imaging [''grayscale'', ''denoise'', ''threshold'', ''morphology''] gray_image = Inr gray_image"
  by (simp add: apply_step_def convert_to_grayscale_def toy_imaging_def gray_image_def)

lemma a_png_valid: "validate_image_path toy_world ''a.png'' = Inr ''a.png''"
  by (simp add: validate_image_path_def toy_world_def path_str_def path_root_def path_parts_def
      path_suffix_def rfind_def py_lower_char_def valid_extensions_def Let_def)

lemma b_png_valid: "validate_image_path toy_world ''b.png'' = Inr ''b.png''"
  by (simp add: validate_image_path_def toy_world_def path_str_def path_root_def path_parts_def
      path_suffix_def rfind_def py_lower_char_def valid_extensions_def Let_def)


lemma path_str_dot_a: "path_str ''./a.png'' = ''a.png''"
  by (simp add: path_str_def path_root_def path_parts_def)

lemma hello_recognized:
  "recognize_with_multiple_configs hello_engine h gray_image =
     ((''HELLO'', 90), h\<lparr>ocr_last_confidence := 90, ocr_last_result := ''HELLO''\<rparr>)"
  by (simp add: recognize_with_multiple_configs_def ocr_configs_def recognize_text_def
      effective_config_def hello_engine_def Let_def strip_def py_isspace_def average_confidence_def
      clean_ocr_result_def clean_text_def py_isprintable_def ocr_artifacts_def)


lemma threshold_60:
  "Config_get (class_heap @ [deref class_heap DEFAULT_CONFIG]) 9 ''ocr.confidence_threshold'' (VNum 60) = VNum 60"
  by (simp add: Config_get_def class_heap_def deref_def DEFAULT_CONFIG_def dict_get_def)

lemma toy_world_sel:
  "ocr_engine toy_world = hello_engine" "imaging_lib toy_world = toy_imaging"
  "image_open toy_world p = Inr gray_image"
  "image_digest toy_world img = Inr ''0f343b0931126a20f133d67c2b018a3b''"
  "time_time toy_world = 1700000000"
  by (simp_all add: toy_world_def)

lemma toy_solve_valid:
  assumes steps: "processing_steps s = [''grayscale'', ''denoise'', ''threshold'', ''morphology'']"
    and cs: "config_store s = class_heap @ [deref class_heap DEFAULT_CONFIG]" and c: "config s = 9"
    and v: "validate_image_path toy_world p = Inr q"
  shows "\<exists>s'. solve_from_file toy_world p False s = (Inr ''HELLO'', s') \<and>
           last_confidence s' = 90 \<and> processing_steps s' = processing_steps s \<and>
           config_store s' = config_store s \<and> config s' = config s \<and>
           processing_history s' = last_100 (processing_history s @
             [\<lparr>pr_timestamp = 1700000000, pr_source = q,
               pr_image_hash = ''0f343b0931126a20f133d67c2b018a3b'', pr_result = ''HELLO'',
               pr_confidence = 90, pr_preprocessing_steps = processing_steps s\<rparr>])"
  using v
  by (simp add: solve_from_file_def solve_image_def solve_image_body_def prog_defs
      run_preprocess_def run_ocr_def record_processing_def validate_result_def
      toy_world_sel steps cs c toy_preprocess hello_recognized threshold_60 Let_def
      strip_def py_isspace_def trim_last_100 del: preprocess.simps)

lemma toy_solve_missing:
  "\<exists>s'. solve_from_file toy_world ''missing.png'' False s = (Inr [], s') \<and>
           last_confidence s' = last_confidence s \<and> processing_steps s' = processing_steps s \<and>
           config_store s' = config_store s \<and> config s' = config s \<and>
           processing_history s' = processing_history s"
  by (simp add: solve_from_file_def prog_defs missing_png_invalid)


lemma toy_batch_item_valid:
  assumes steps: "processing_steps s = [''grayscale'', ''denoise'', ''threshold'', ''morphology'']"
    and cs: "config_store s = class_heap @ [deref class_heap DEFAULT_CONFIG]" and c: "config s = 9"
    and v: "validate_image_path toy_world p = Inr q"
  shows "\<exists>s'. batch_item toy_world False p s =
           (Inr \<lparr>br_path = p, br_result = ''HELLO'', br_confidence = 90,
                  br_success = True, br_error = None\<rparr>, s') \<and>
           last_confidence s' = 90 \<and> processing_steps s' = processing_steps s \<and>
           config_store s' = config_store s \<and> config s' = config s"
proof -
  let ?s1 = "s\<lparr>logged := logged s @ [(INFO, ''Processing image: '' @ p)]\<rparr>"
  obtain s' where run: "solve_from_file toy_world p False ?s1 = (Inr ''HELLO'', s')"
    and keep: "last_confidence s' = 90" "processing_steps s' = processing_steps ?s1"
      "config_store s' = config_store ?s1" "config s' = config ?s1"
    using toy_solve_valid[of ?s1 p q] steps cs c v by auto
  show ?thesis
    using run keep by (simp add: batch_item_def prog_defs strip_def py_isspace_def)
qed

lemma toy_batch_item_missing:
  "\<exists>s'. batch_item toy_world False ''missing.png'' s =
           (Inr \<lparr>br_path = ''missing.png'', br_result = [], br_confidence = last_confidence s,
                  br_success = False, br_error = None\<rparr>, s') \<and>
           last_confidence s' = last_confidence s \<and> processing_steps s' = processing_steps s \<and>
           config_store s' = config_store s \<and> config s' = config s"
proof -
  let ?s1 = "s\<lparr>logged := logged s @ [(INFO, ''Processing image: missing.png'')]\<rparr>"
  obtain s' where run: "solve_from_file toy_world ''missing.png'' False ?s1 = (Inr [], s')"
    and keep: "last_confidence s' = last_confidence ?s1" "processing_steps s' = processing_steps ?s1"
      "config_store s' = config_store ?s1" "config s' = config ?s1"
    using toy_solve_missing[of ?s1] by auto
  show ?thesis
    using run keep by (simp add: batch_item_def prog_defs strip_def)
qed

text \<open>
  Claim C5. \<^verbatim>\<open>solve_batch\<close> returns one entry per path and never raises
  (\<open>batch_loop_spec\<close>), and the entry of a missing file has \<open>success = False\<close>. But
  \<^verbatim>\<open>solve_from_file\<close> swallows the \<open>FileNotFoundError\<close> and returns the empty
  string, so the \<^verbatim>\<open>except\<close> branch of the batch loop, the only place that sets the
  \<open>error\<close> key, is never taken: no entry carries an error. On the three paths
  \<open>a.png\<close>, \<open>missing.png\<close>, \<open>b.png\<close> the entry of the missing file has no error, and
  its confidence is the 90 left behind by the image solved before it.
\<close>

theorem batch_entry_for_missing_file_has_no_error:
  "fst (solve_batch toy_world [''a.png'', ''missing.png'', ''b.png''] False fresh_solver) =
     Inr [\<lparr>br_path = ''a.png'', br_result = ''HELLO'', br_confidence = 90,
            br_success = True, br_error = None\<rparr>,
          \<lparr>br_path = ''missing.png'', br_result = [], br_confidence = 90,
            br_success = False, br_error = None\<rparr>,
          \<lparr>br_path = ''b.png'', br_result = ''HELLO'', br_confidence = 90,
            br_success = True, br_error = None\<rparr>]"
proof -
  have f: "processing_steps fresh_solver = [''grayscale'', ''denoise'', ''threshold'', ''morphology'']"
    "config_store fresh_solver = class_heap @ [deref class_heap DEFAULT_CONFIG]"
    "config fresh_solver = 9"
    by (simp_all add: fresh_solver_def)
  obtain s1 where i1: "batch_item toy_world False ''a.png'' fresh_solver =
           (Inr \<lparr>br_path = ''a.png'', br_result = ''HELLO'', br_confidence = 90,
                  br_success = True, br_error = None\<rparr>, s1)"
    and k1: "last_confidence s1 = 90" "processing_steps s1 = processing_steps fresh_solver"
           "config_store s1 = config_store fresh_solver" "config s1 = config fresh_solver"
    using toy_batch_item_valid[OF f a_png_valid] by auto
  obtain s2 where i2: "batch_item toy_world False ''missing.png'' s1 =
           (Inr \<lparr>br_path = ''missing.png'', br_result = [], br_confidence = last_confidence s1,
                  br_success = False, br_error = None\<rparr>, s2)"
    and k2: "last_confidence s2 = last_confidence s1" "processing_steps s2 = processing_steps s1"
           "config_store s2 = config_store s1" "config s2 = config s1"
    using toy_batch_item_missing[of s1] by auto
  obtain s3 where i3: "batch_item toy_world False ''b.png'' s2 =
           (Inr \<lparr>br_path = ''b.png'', br_result = ''HELLO'', br_confidence = 90,
                  br_success = True, br_error = None\<rparr>, s3)"
    using toy_batch_item_valid[of s2 "''b.png''" "''b.png''"] f k1 k2 b_png_valid by auto
  show ?thesis
    using i1 i2 i3 k1 by (simp add: solve_batch_def prog_defs)
qed





lemma last_100_idem_append: "last_100 (last_100 xs @ ys) = last_100 (xs @ ys)"
  by (cases "100 \<le> length xs") (simp_all add: last_100_def add.commute)



















section \<open>Properties of the extractor\<close>

lemma index_of_nth: "distinct xs \<Longrightarrow> n < length xs \<Longrightarrow> index_of (xs ! n) xs = Some n"
proof (induction xs arbitrary: n)
  case Nil
  then show ?case by simp
next
  case (Cons x xs)
  show ?case
  proof (cases n)
    case 0
    then show ?thesis by simp
  next
    case (Suc m)
    then have "xs ! m \<in> set xs" using Cons.prems by simp
    then have "xs ! m \<noteq> x" using Cons.prems by auto
    then show ?thesis using Suc Cons by simp
  qed
qed

lemma b64_alphabet_length: "length b64_alphabet = 64"
  by (simp add: b64_alphabet_def)

lemma b64_alphabet_distinct: "distinct b64_alphabet"
  by (simp add: b64_alphabet_def)

lemma b64_alphabet_chars:
  "c \<in> set b64_alphabet \<Longrightarrow> c \<noteq> CHR ''='' \<and> c \<noteq> CHR 0x0A \<and> (of_char c :: nat) < 128"
  by (auto simp: b64_alphabet_def)


lemma b64_index_char: "n < 64 \<Longrightarrow> b64_index (b64_char n) = Some n"
  by (simp add: b64_index_def b64_char_def index_of_nth b64_alphabet_distinct b64_alphabet_length)

lemma b64_char_in: "n < 64 \<Longrightarrow> b64_char n \<in> set b64_alphabet"
  by (simp add: b64_char_def b64_alphabet_length)

lemma b64_char_not_pad: "n < 64 \<Longrightarrow> b64_char n \<noteq> CHR ''=''"
  using b64_alphabet_chars b64_char_in by blast

lemma a2b_valid:
  assumes "n < 64"
  shows "a2b_base64 q l p (b64_char n # rest) out =
     (if q = 0 then a2b_base64 1 n 0 rest out
      else if q = 1 then a2b_base64 2 (n mod 16) 0 rest (out @ [char_of (l * 4 + n div 16)])
      else if q = 2 then a2b_base64 3 (n mod 4) 0 rest (out @ [char_of (l * 16 + n div 4)])
      else a2b_base64 0 0 0 rest (out @ [char_of (l * 64 + n)]))"
  using assms by (simp add: b64_index_char b64_char_not_pad)

lemma byte_bound: "(of_char (a :: char) :: nat) < 256"
  by (rule nat_of_char_less_256)

lemma sextet2_bound: "(y::nat) < 256 \<Longrightarrow> x mod 4 * 16 + y div 16 < 64"
proof -
  assume "y < 256"
  then have "y div 16 < 16" by simp
  moreover have "x mod 4 < 4" by simp
  ultimately show ?thesis by linarith
qed

lemma sextet3_bound: "(z::nat) < 256 \<Longrightarrow> y mod 16 * 4 + z div 64 < 64"
proof -
  assume "z < 256"
  then have "z div 64 < 4" by simp
  moreover have "y mod 16 < 16" by simp
  ultimately show ?thesis by linarith
qed

lemma byte1_back: "(y::nat) < 256 \<Longrightarrow> x div 4 * 4 + (x mod 4 * 16 + y div 16) div 16 = x"
proof -
  assume "y < 256"
  then have "y div 16 < 16" by simp
  then have "(x mod 4 * 16 + y div 16) div 16 = x mod 4" by simp
  then show ?thesis by simp
qed

lemma byte2_back: "(y::nat) < 256 \<Longrightarrow> (z::nat) < 256 \<Longrightarrow>
   (x mod 4 * 16 + y div 16) mod 16 * 16 + (y mod 16 * 4 + z div 64) div 4 = y"
proof -
  assume "y < 256" "z < 256"
  then have a: "y div 16 < 16" and b: "z div 64 < 4" by simp_all
  have "(x mod 4 * 16 + y div 16) mod 16 = y div 16" using a by simp
  moreover have "(y mod 16 * 4 + z div 64) div 4 = y mod 16" using b by simp
  ultimately show ?thesis by simp
qed

lemma byte3_back: "(z::nat) < 256 \<Longrightarrow> (y mod 16 * 4 + z div 64) mod 4 * 64 + z mod 64 = z"
proof -
  assume "z < 256"
  then have b: "z div 64 < 4" by simp
  have "(y mod 16 * 4 + z div 64) mod 4 = z div 64" using b by simp
  then show ?thesis by simp
qed

lemma pad1_back: "(x mod 4 * 16) div 16 = (x::nat) mod 4" by simp
lemma pad2_back: "(y::nat) < 256 \<Longrightarrow> (y mod 16 * 4) div 4 = y mod 16" by simp


lemma sextet1_bound: "(x::nat) < 256 \<Longrightarrow> x div 4 < 64"
  by simp

lemma a2b_valid0: "n < 64 \<Longrightarrow> a2b_base64 0 l p (b64_char n # rest) out = a2b_base64 1 n 0 rest out"
  by (simp add: a2b_valid del: a2b_base64.simps)

lemma a2b_valid1:
  "n < 64 \<Longrightarrow> a2b_base64 1 l p (b64_char n # rest) out =
     a2b_base64 2 (n mod 16) 0 rest (out @ [char_of (l * 4 + n div 16)])"
  by (simp add: a2b_valid del: a2b_base64.simps)

lemma a2b_valid2:
  "n < 64 \<Longrightarrow> a2b_base64 2 l p (b64_char n # rest) out =
     a2b_base64 3 (n mod 4) 0 rest (out @ [char_of (l * 16 + n div 4)])"
  by (simp add: a2b_valid del: a2b_base64.simps)

lemma a2b_valid3:
  "n < 64 \<Longrightarrow> a2b_base64 3 l p (b64_char n # rest) out =
     a2b_base64 0 0 0 rest (out @ [char_of (l * 64 + n)])"
  by (simp add: a2b_valid del: a2b_base64.simps)

lemma a2b_pad_at_3: "a2b_base64 3 l 0 (CHR ''='' # rest) out = Inr out"
  by simp

lemma a2b_pad_at_2: "a2b_base64 2 l 0 (CHR ''='' # CHR ''='' # rest) out = Inr out"
  by simp

lemma a2b_enc3:
  "a2b_base64 0 0 0 (enc3 a b c @ rest) out = a2b_base64 0 0 0 rest (out @ [a, b, c])"
proof -
  define x y z where "x = (of_char a :: nat)" and "y = (of_char b :: nat)" and "z = (of_char c :: nat)"
  have bx: "x < 256" and bz: "z < 256" and by': "y < 256"
    by (simp_all add: x_def y_def z_def byte_bound)
  have n1: "x div 4 < 64" using bx by simp
  note n2 = sextet2_bound[OF by', of x]
  note n3 = sextet3_bound[OF bz, of y]
  have n4: "z mod 64 < 64" by simp
  have "a2b_base64 0 0 0 (b64_char (x div 4) # b64_char (x mod 4 * 16 + y div 16) #
              b64_char (y mod 16 * 4 + z div 64) # b64_char (z mod 64) # rest) out =
        a2b_base64 0 0 0 rest (out @ [char_of x, char_of y, char_of z])"
    by (simp only: a2b_valid0[OF n1] a2b_valid1[OF n2] a2b_valid2[OF n3] a2b_valid3[OF n4]
        byte1_back[OF by'] byte2_back[OF by' bz] byte3_back[OF bz]
        append_assoc append_Cons append_Nil)
  then show ?thesis
    by (simp add: enc3_def Let_def x_def y_def z_def del: a2b_base64.simps)
qed

lemma a2b_enc2:
  "a2b_base64 0 0 0 (enc2 a b) out = Inr (out @ [a, b])"
proof -
  define x y where "x = (of_char a :: nat)" and "y = (of_char b :: nat)"
  have bx: "x < 256" and by': "y < 256"
    by (simp_all add: x_def y_def byte_bound)
  have n1: "x div 4 < 64" using bx by simp
  note n2 = sextet2_bound[OF by', of x]
  have n3: "y mod 16 * 4 < 64" by simp
  have bk: "(x mod 4 * 16 + y div 16) mod 16 * 16 + y mod 16 * 4 div 4 = y"
    using byte2_back[OF by', of 0 x] by simp
  have "a2b_base64 0 0 0 [b64_char (x div 4), b64_char (x mod 4 * 16 + y div 16),
              b64_char (y mod 16 * 4), CHR ''=''] out =
        Inr (out @ [char_of x, char_of y])"
    by (simp only: a2b_valid0[OF n1] a2b_valid1[OF n2] a2b_valid2[OF n3] a2b_pad_at_3
        byte1_back[OF by'] bk append_assoc append_Cons append_Nil)
  then show ?thesis
    by (simp add: enc2_def Let_def x_def y_def del: a2b_base64.simps)
qed

lemma a2b_enc1:
  "a2b_base64 0 0 0 (enc1 a) out = Inr (out @ [a])"
proof -
  define x where "x = (of_char a :: nat)"
  have bx: "x < 256" by (simp add: x_def byte_bound)
  have n1: "x div 4 < 64" using bx by simp
  have n2: "x mod 4 * 16 < 64" by simp
  have bk: "x div 4 * 4 + x mod 4 * 16 div 16 = x" by simp
  have "a2b_base64 0 0 0 [b64_char (x div 4), b64_char (x mod 4 * 16), CHR ''='', CHR ''=''] out =
        Inr (out @ [char_of x])"
    by (simp only: a2b_valid0[OF n1] a2b_valid1[OF n2] a2b_pad_at_2 bk)
  then show ?thesis
    by (simp add: enc1_def Let_def x_def del: a2b_base64.simps)
qed

lemma a2b_b64encode: "a2b_base64 0 0 0 (b64encode bs) out = Inr (out @ bs)"
proof (induction bs arbitrary: out rule: b64encode.induct)
  case (1 a b c rest)
  show ?case by (simp add: a2b_enc3 "1.IH" del: a2b_base64.simps)
next
  case (2 a b)
  show ?case by (simp add: a2b_enc2 del: a2b_base64.simps)
next
  case (3 a)
  show ?case by (simp add: a2b_enc1 del: a2b_base64.simps)
next
  case 4
  show ?case by simp
qed

lemma b64encode_chars:
  "c \<in> set (b64encode bs) \<Longrightarrow> c \<in> set b64_alphabet \<or> c = CHR ''=''"
proof (induction bs rule: b64encode.induct)
  case (1 a b cc rest)
  have bz: "(of_char cc :: nat) < 256" and by': "(of_char b :: nat) < 256" and bx: "(of_char a :: nat) < 256"
    by (simp_all add: byte_bound)
  have "of_char a div 4 < (64::nat)" using bx by (rule sextet1_bound)
  then show ?case
    using 1 sextet2_bound[OF by', of "of_char a"] sextet3_bound[OF bz, of "of_char b"]
    by (auto simp: enc3_def Let_def b64_char_in)
next
  case (2 a b)
  have by': "(of_char b :: nat) < 256" and bx: "(of_char a :: nat) < 256"
    by (simp_all add: byte_bound)
  have "of_char a div 4 < (64::nat)" using bx by (rule sextet1_bound)
  then show ?case
    using 2 sextet2_bound[OF by', of "of_char a"]
    by (auto simp: enc2_def Let_def b64_char_in)
next
  case (3 a)
  have bx: "(of_char a :: nat) < 256" by (simp add: byte_bound)
  have "of_char a div 4 < (64::nat)" using bx by (rule sextet1_bound)
  then show ?case
    using 3 by (auto simp: enc1_def Let_def b64_char_in)
next
  case 4
  then show ?case by simp
qed

lemma b64encode_nonempty: "bs \<noteq> [] \<Longrightarrow> b64encode bs \<noteq> []"
  by (induction bs rule: b64encode.induct) (simp_all add: enc3_def enc2_def enc1_def Let_def)

lemma b64_roundtrip: "b64decode (b64encode bs) = Inr bs"
proof -
  have "\<not> list_ex (\<lambda>c. (of_char c :: nat) \<ge> 128) (b64encode bs)"
    using b64encode_chars[of _ bs] b64_alphabet_chars by (fastforce simp: list_ex_iff)
  then show ?thesis
    using a2b_b64encode[of bs "[]"] by (simp add: b64decode_def)
qed


lemma match_png_payload:
  assumes "payload \<noteq> []" and "CHR 0x0A \<notin> set payload"
  shows "match_data_uri (''data:image/png;base64,'' @ payload) = Some payload"
proof -
  have tw: "takeWhile (\<lambda>c. c \<noteq> CHR 0x0A) payload = payload"
    using assms(2) by (auto simp: takeWhile_eq_all_conv)
  show ?thesis
    using assms(1) by (simp add: match_data_uri_def startswith_def tw Let_def)
qed

text \<open>
  Claim C9, as the code has it. For every non-empty byte string \<open>b\<close>, the pattern of
  \<^verbatim>\<open>_decode_data_uri\<close> isolates exactly the Base64 text of \<open>b\<close> from the data URI
  \<open>data:image/png;base64,\<close> followed by that text; decoding it gives \<open>b\<close> back; and
  \<^verbatim>\<open>download_image\<close> returns the image that \<^verbatim>\<open>Image.open\<close> makes of exactly the
  bytes \<open>b\<close> (and \<open>None\<close> when it makes none).
\<close>

theorem data_uri_roundtrip:
  assumes "b \<noteq> []"
  shows "match_data_uri (''data:image/png;base64,'' @ b64encode b) = Some (b64encode b) \<and>
         b64decode (b64encode b) = Inr b \<and>
         download_image env (''data:image/png;base64,'' @ b64encode b) None =
           (case image_from_bytes env b of Inl e \<Rightarrow> None | Inr img \<Rightarrow> Some img)"
proof -
  have nl: "CHR 0x0A \<notin> set (b64encode b)"
    using b64encode_chars[of "CHR 0x0A" b] b64_alphabet_chars[of "CHR 0x0A"] by auto
  have m: "match_data_uri (''data:image/png;base64,'' @ b64encode b) = Some (b64encode b)"
    using match_png_payload[OF b64encode_nonempty[OF assms] nl] .
  have d: "download_image env (''data:image/png;base64,'' @ b64encode b) None =
        decode_data_uri env (''data:image/png;base64,'' @ b64encode b)"
    by (simp add: download_image_def download_image_from_src_def resolve_url_def startswith_def)
  show ?thesis
    unfolding d decode_data_uri_def m by (simp add: b64_roundtrip)
qed

theorem data_uri_roundtrip_witness:
  "b64encode ''hello'' = ''aGVsbG8='' \<and>
   match_data_uri ''data:image/png;base64,aGVsbG8='' = Some ''aGVsbG8='' \<and>
   b64decode ''aGVsbG8='' = Inr ''hello'' \<and>
   download_image open_net ''data:image/png;base64,aGVsbG8='' None = Some ''hello''"
proof -
  have e: "b64encode ''hello'' = ''aGVsbG8=''"
    by (simp add: enc3_def enc2_def b64_char_def b64_alphabet_def Let_def)
  have ne: "''hello'' \<noteq> []" by simp
  show ?thesis
    using data_uri_roundtrip[OF ne, of open_net, unfolded e] e by (simp add: open_net_def)
qed

text \<open>
  The claim as stated fails on the empty byte string: its Base64 text is empty, the
  group \<^verbatim>\<open>(.+)\<close> needs one character, so the pattern does not match and the extractor
  returns \<open>None\<close> without decoding anything, even where the empty byte string would
  open.
\<close>

theorem empty_payload_is_not_matched:
  "b64encode [] = [] \<and>
   match_data_uri (''data:image/png;base64,'' @ b64encode []) = None \<and>
   image_from_bytes open_net [] = Inr [] \<and>
   download_image open_net (''data:image/png;base64,'' @ b64encode []) None = None"
  by (simp add: match_data_uri_def startswith_def Let_def download_image_def
      download_image_from_src_def resolve_url_def decode_data_uri_def open_net_def)

end
